theory Spec2Isabelle
  imports Main
begin

section \<open>JavaScript values\<close>

text \<open>
  An optional property of a JavaScript object is absent (\<open>undefined\<close>), \<open>null\<close>, or holds
  a value.  The source tests such properties in three ways: by truthiness
  (\<open>if (parms.waitForActive)\<close>), by \<open>== null\<close> / \<open>isNullOrUndefined\<close>, and by
  string concatenation.
\<close>

datatype 'a js = Undefined | Null | Defined 'a

fun isNullOrUndefined :: "'a js \<Rightarrow> bool" where
  "isNullOrUndefined (Defined v) = False"
| "isNullOrUndefined Undefined = True"
| "isNullOrUndefined Null = True"

text \<open>Truthiness of an optional boolean and of an optional string (\<open>""\<close> is falsy).\<close>

fun truthy :: "bool js \<Rightarrow> bool" where
  "truthy (Defined b) = b"
| "truthy Undefined = False"
| "truthy Null = False"

fun truthy_str :: "string js \<Rightarrow> bool" where
  "truthy_str (Defined s) = (s \<noteq> [])"
| "truthy_str Undefined = False"
| "truthy_str Null = False"

text \<open>The string that \<open>"..." + v\<close> appends for an optional string \<open>v\<close>.\<close>

fun str :: "string js \<Rightarrow> string" where
  "str (Defined s) = s"
| "str Undefined = ''undefined''"
| "str Null = ''null''"

section \<open>Errors\<close>

text \<open>
  A rejected promise is a value \<open>Inl e\<close>.  \<open>MissingParameter\<close> is the error thrown by
  an \<open>ImperativeExpect\<close> check, with its message; \<open>RemoteCallFailure\<close> is an error
  raised by the REST client or by one of the remote APIs; \<open>ThrownString\<close> is a plain
  string used as the thrown value.
\<close>

datatype error =
    MissingParameter string
  | RemoteCallFailure string
  | ThrownString string

text \<open>
  Modelled from the spec: the checks of \<open>ImperativeExpect\<close> (package
  \<open>@zowe/imperative\<close>, not part of the source) that the source calls.  The spec
  describes their failure as "MissingParameter: required input absent".  Each check does
  what its name says: \<open>toNotBeNullOrUndefined\<close> throws when the value is \<open>null\<close> or
  \<open>undefined\<close>; \<open>toNotBeEqual\<close> throws when the two values are equal;
  \<open>keysToBeDefined\<close> throws when one of the named properties is \<open>null\<close> or
  \<open>undefined\<close>, as the messages its callers pass say ("The 'jcl' field of the provided
  parameters was undefined").  The named properties are passed here as the list of
  their values.
\<close>

definition toNotBeNullOrUndefined :: "'a js \<Rightarrow> string \<Rightarrow> error + unit" where
  "toNotBeNullOrUndefined obj msg =
     (if isNullOrUndefined obj then Inl (MissingParameter msg) else Inr ())"

definition toNotBeEqual :: "'a js \<Rightarrow> 'a js \<Rightarrow> string \<Rightarrow> error + unit" where
  "toNotBeEqual actual expected msg =
     (if actual = expected then Inl (MissingParameter msg) else Inr ())"

definition keysToBeDefined :: "string js list \<Rightarrow> string \<Rightarrow> error + unit" where
  "keysToBeDefined keys msg =
     (if \<exists>k \<in> set keys. isNullOrUndefined k then Inl (MissingParameter msg) else Inr ())"

section \<open>Job documents and parameter objects\<close>

text \<open>The members of the enum \<open>JOB_STATUS\<close> that the source names.\<close>

datatype JOB_STATUS = ACTIVE | OUTPUT

record IJob =
  jobname :: "string js"
  jobid :: "string js"
  status :: "string js"
  retcode :: "string js"

record IJobFile =
  id' :: int
  ddname :: "string js"
  stepname :: "string js"
  procstep :: "string js"

record ISpoolFile =
  id' :: int
  ddName :: "string js"
  stepName :: "string js"
  procName :: "string js"
  data :: string

record IMonitorJobWaitForParms =
  jobname :: "string js"
  jobid :: "string js"
  status :: "JOB_STATUS js"
  maxAttempts :: "int js"
  watchDelay :: "int js"

record IDownloadAllSpoolContentParms =
  jobid :: "string js"
  jobname :: "string js"
  outDir :: "string js"
  extension :: "string js"

record ISubmitJobParms =
  jobDataSet :: "string js"

record ISubmitJobNotifyParm = ISubmitJobParms +
  status :: "JOB_STATUS js"
  watchDelay :: "int js"

record ISubmitJclParms =
  jcl :: "string js"
  internalReaderRecfm :: "string js"
  internalReaderLrecl :: "string js"

record ISubmitJclNotifyParm = ISubmitJclParms +
  status :: "JOB_STATUS js"
  watchDelay :: "int js"

text \<open>
  \<open>ISubmitParms\<close>, the option bag of \<open>checkSubmitOptions\<close>.  Its \<open>task\<close> property is
  a mutable progress object that the function writes to; it is kept in the state below.
\<close>

record ISubmitParms =
  waitForActive :: "bool js"
  viewAllSpoolContent :: "bool js"
  waitForOutput :: "bool js"
  directory :: "string js"
  extension :: "string js"
  maxAttempts :: "int js"
  watchDelay :: "int js"

record ITaskWithStatus =
  statusMessage :: string
  percentComplete :: nat

text \<open>
  Modelled from the spec: the enum \<open>TaskProgress\<close> (package \<open>@zowe/imperative\<close>); the spec
  gives "30% at poll-start, 70% at content-retrieval-start".
\<close>

definition THIRTY_PERCENT :: nat where
  "THIRTY_PERCENT = 30"

definition SEVENTY_PERCENT :: nat where
  "SEVENTY_PERCENT = 70"

text \<open>The value a promise of \<open>IJob | ISpoolFile[]\<close> resolves to.\<close>

datatype submit_result = Job IJob | SpoolFiles "ISpoolFile list"

section \<open>The remote system\<close>

text \<open>
  Request headers.  \<open>Headers.TEXT_PLAIN_UTF8\<close>, \<open>Headers.APPLICATION_JSON\<close> and
  \<open>ZosmfHeaders.X_IBM_INTRDR_MODE_TEXT\<close> are constants whose content no operation
  inspects; \<open>Header k v\<close> is the object \<open>{k: v}\<close>.
\<close>

datatype header =
    TEXT_PLAIN_UTF8
  | APPLICATION_JSON
  | X_IBM_INTRDR_MODE_TEXT
  | Header string string

text \<open>
  Modelled from the spec: the constants \<open>ZosmfHeaders.X_IBM_INTRDR_LRECL_80\<close> and
  \<open>ZosmfHeaders.X_IBM_INTRDR_RECFM_F\<close> (module \<open>rest\<close>); the spec gives
  "record format (X-IBM-Intrdr-Recfm: F default, or caller value), and logical record
  length (X-IBM-Intrdr-Lrecl: 80 default, or caller value)".
\<close>

definition X_IBM_INTRDR_LRECL_80 :: header where
  "X_IBM_INTRDR_LRECL_80 = Header ''X-IBM-Intrdr-Lrecl'' ''80''"

definition X_IBM_INTRDR_RECFM_F :: header where
  "X_IBM_INTRDR_RECFM_F = Header ''X-IBM-Intrdr-Recfm'' ''F''"

text \<open>The body of a PUT: the JSON object \<open>{file: ...}\<close> or the JCL text itself.\<close>

datatype payload = JsonFile string | Text "string js"

text \<open>
  Every call that leaves \<open>SubmitJobs\<close> for another module is recorded, in order.  All
  PUT requests go to the one resource \<open>JobsConstants.RESOURCE\<close>, and the session is a
  read-only argument of every call; neither is recorded.
\<close>

datatype call =
    PutExpectJSON "header list" payload
  | WaitForStatusCommon IMonitorJobWaitForParms
  | GetSpoolFilesForJob IJob
  | GetSpoolContent IJobFile
  | DownloadAllSpoolContentCommon IDownloadAllSpoolContentParms

text \<open>
  The modules that are called but are not part of \<open>SubmitJobs\<close> are parameters: what
  \<open>ZosmfRestClient.putExpectJSON\<close>, \<open>MonitorJobs.waitForStatusCommon\<close>,
  \<open>GetJobs.getSpoolFilesForJob\<close>, \<open>GetJobs.getSpoolContent\<close> and
  \<open>DownloadJobs.downloadAllSpoolContentCommon\<close> answer may depend on every call made
  before (the first argument), so the remote system may change between two polls.
  \<open>IO.normalizeExtension\<close> is a pure function on strings.
\<close>

record env =
  putExpectJSON :: "call list \<Rightarrow> header list \<Rightarrow> payload \<Rightarrow> error + IJob"
  waitForStatusCommon :: "call list \<Rightarrow> IMonitorJobWaitForParms \<Rightarrow> error + IJob"
  getSpoolFilesForJob :: "call list \<Rightarrow> IJob \<Rightarrow> error + IJobFile list"
  getSpoolContent :: "call list \<Rightarrow> IJobFile \<Rightarrow> error + string"
  downloadAllSpoolContentCommon ::
    "call list \<Rightarrow> IDownloadAllSpoolContentParms \<Rightarrow> error + unit"
  normalizeExtension :: "string \<Rightarrow> string"

text \<open>The state an operation runs in: the calls made so far and \<open>parms.task\<close>.\<close>

record state =
  calls :: "call list"
  task :: "ITaskWithStatus option"

definition ZosmfRestClient_putExpectJSON ::
  "env \<Rightarrow> header list \<Rightarrow> payload \<Rightarrow> state \<Rightarrow> (error + IJob) \<times> state" where
  "ZosmfRestClient_putExpectJSON w headers body s =
     (putExpectJSON w (calls s) headers body,
      s\<lparr>calls := calls s @ [PutExpectJSON headers body]\<rparr>)"

definition MonitorJobs_waitForStatusCommon ::
  "env \<Rightarrow> IMonitorJobWaitForParms \<Rightarrow> state \<Rightarrow> (error + IJob) \<times> state" where
  "MonitorJobs_waitForStatusCommon w parms s =
     (waitForStatusCommon w (calls s) parms,
      s\<lparr>calls := calls s @ [WaitForStatusCommon parms]\<rparr>)"

definition GetJobs_getSpoolFilesForJob ::
  "env \<Rightarrow> IJob \<Rightarrow> state \<Rightarrow> (error + IJobFile list) \<times> state" where
  "GetJobs_getSpoolFilesForJob w job s =
     (getSpoolFilesForJob w (calls s) job,
      s\<lparr>calls := calls s @ [GetSpoolFilesForJob job]\<rparr>)"

definition GetJobs_getSpoolContent ::
  "env \<Rightarrow> IJobFile \<Rightarrow> state \<Rightarrow> (error + string) \<times> state" where
  "GetJobs_getSpoolContent w file s =
     (getSpoolContent w (calls s) file,
      s\<lparr>calls := calls s @ [GetSpoolContent file]\<rparr>)"

definition DownloadJobs_downloadAllSpoolContentCommon ::
  "env \<Rightarrow> IDownloadAllSpoolContentParms \<Rightarrow> state \<Rightarrow> (error + unit) \<times> state" where
  "DownloadJobs_downloadAllSpoolContentCommon w parms s =
     (downloadAllSpoolContentCommon w (calls s) parms,
      s\<lparr>calls := calls s @ [DownloadAllSpoolContentCommon parms]\<rparr>)"

section \<open>SubmitJobs\<close>

text \<open>
  \<open>ZosJobsMessages.missingJcl.message\<close> is a constant of the module \<open>JobsMessages\<close>;
  the operation that uses it takes it as the parameter \<open>missingJcl\<close>.  A parameter
  whose name is also a property name carries a prime.  Logging is left
  out: it has no effect on what an operation returns or calls.
\<close>

definition submitJobCommon ::
  "env \<Rightarrow> 'a ISubmitJobParms_scheme \<Rightarrow> state \<Rightarrow> (error + IJob) \<times> state" where
  "submitJobCommon w parms s =
     (case keysToBeDefined [jobDataSet parms]
             ''You must provide a data set containing JCL to submit in parms.jobDataSet'' of
        Inl e \<Rightarrow> (Inl e, s)
      | Inr _ \<Rightarrow>
          (let fullyQualifiedDataset = ''//'' @ [CHR 0x27] @ str (jobDataSet parms) @ [CHR 0x27];
               jobObj = JsonFile fullyQualifiedDataset
           in ZosmfRestClient_putExpectJSON w [APPLICATION_JSON] jobObj s))"

definition submitJob :: "env \<Rightarrow> string js \<Rightarrow> state \<Rightarrow> (error + IJob) \<times> state" where
  "submitJob w jobDataSet' s = submitJobCommon w \<lparr>jobDataSet = jobDataSet'\<rparr> s"

definition submitJclCommon ::
  "env \<Rightarrow> 'a ISubmitJclParms_scheme \<Rightarrow> state \<Rightarrow> (error + IJob) \<times> state" where
  "submitJclCommon w parms s =
     (case keysToBeDefined [jcl parms]
             (''You must provide a JCL string to submit. '' @
              ''The 'jcl' field of the provided parameters was undefined. '') of
        Inl e \<Rightarrow> (Inl e, s)
      | Inr _ \<Rightarrow>
          (let headers = [TEXT_PLAIN_UTF8, X_IBM_INTRDR_MODE_TEXT];
               headers =
                 (if truthy_str (internalReaderLrecl parms)
                  then headers @ [Header ''X-IBM-Intrdr-Lrecl'' (str (internalReaderLrecl parms))]
                  else headers @ [X_IBM_INTRDR_LRECL_80]);
               headers =
                 (if truthy_str (internalReaderRecfm parms)
                  then headers @ [Header ''X-IBM-Intrdr-Recfm'' (str (internalReaderRecfm parms))]
                  else headers @ [X_IBM_INTRDR_RECFM_F])
           in ZosmfRestClient_putExpectJSON w headers (Text (jcl parms)) s))"

definition submitJcl ::
  "env \<Rightarrow> string js \<Rightarrow> string js \<Rightarrow> string js \<Rightarrow> state \<Rightarrow> (error + IJob) \<times> state" where
  "submitJcl w jcl' internalReaderRecfm' internalReaderLrecl' s =
     submitJclCommon w
       \<lparr>jcl = jcl', internalReaderRecfm = internalReaderRecfm',
        internalReaderLrecl = internalReaderLrecl'\<rparr> s"

text \<open>The loop \<open>for (const file of spoolFiles)\<close> and the array \<open>arrOfSpoolFile\<close> it fills.\<close>

fun spoolLoop ::
  "env \<Rightarrow> IJobFile list \<Rightarrow> ISpoolFile list \<Rightarrow> state \<Rightarrow> (error + ISpoolFile list) \<times> state"
where
  "spoolLoop w [] arrOfSpoolFile s = (Inr arrOfSpoolFile, s)"
| "spoolLoop w (file # spoolFiles) arrOfSpoolFile s =
     (case GetJobs_getSpoolContent w file s of
        (Inl e, s') \<Rightarrow> (Inl e, s')
      | (Inr spoolContent, s') \<Rightarrow>
          spoolLoop w spoolFiles
            (arrOfSpoolFile @
               [\<lparr>ISpoolFile.id' = IJobFile.id' file,
                 ddName = ddname file,
                 stepName = stepname file,
                 procName = procstep file,
                 data = spoolContent\<rparr>]) s')"

text \<open>A write to \<open>parms.task\<close>, guarded by \<open>parms.task != null\<close>.\<close>

definition setTask :: "string \<Rightarrow> nat \<Rightarrow> state \<Rightarrow> state" where
  "setTask message percent s =
     (case task s of
        None \<Rightarrow> s
      | Some t \<Rightarrow> s\<lparr>task := Some (t\<lparr>statusMessage := message, percentComplete := percent\<rparr>)\<rparr>)"

definition checkSubmitOptions ::
  "env \<Rightarrow> ISubmitParms \<Rightarrow> IJob \<Rightarrow> state \<Rightarrow> (error + submit_result) \<times> state" where
  "checkSubmitOptions w parms responseJobInfo s =
     (let jobParms =
            \<lparr>IMonitorJobWaitForParms.jobname = IJob.jobname responseJobInfo,
             jobid = IJob.jobid responseJobInfo,
             status = Defined (if truthy (waitForActive parms) then ACTIVE else OUTPUT),
             maxAttempts = ISubmitParms.maxAttempts parms,
             watchDelay = ISubmitParms.watchDelay parms\<rparr>
      in
      if truthy (waitForActive parms) then
        (case MonitorJobs_waitForStatusCommon w jobParms s of
           (Inl e, s1) \<Rightarrow> (Inl e, s1)
         | (Inr activeJob, s1) \<Rightarrow> (Inr (Job activeJob), s1))
      else if truthy (viewAllSpoolContent parms) \<or> truthy (waitForOutput parms) then
        (let s0 = setTask (''Waiting for '' @ str (IJob.jobid responseJobInfo) @ '' to enter OUTPUT'')
                    THIRTY_PERCENT s
         in case MonitorJobs_waitForStatusCommon w jobParms s0 of
              (Inl e, s1) \<Rightarrow> (Inl e, s1)
            | (Inr job, s1) \<Rightarrow>
                if \<not> truthy (viewAllSpoolContent parms) then (Inr (Job job), s1)
                else
                  (let s2 = setTask
                         (''Retrieving spool content for '' @ str (IJob.jobid job) @
                          (if isNullOrUndefined (IJob.retcode job) then []
                           else '', '' @ str (IJob.retcode job)))
                         SEVENTY_PERCENT s1
                   in case GetJobs_getSpoolFilesForJob w job s2 of
                        (Inl e, s3) \<Rightarrow> (Inl e, s3)
                      | (Inr spoolFiles, s3) \<Rightarrow>
                          (case spoolLoop w spoolFiles [] s3 of
                             (Inl e, s4) \<Rightarrow> (Inl e, s4)
                           | (Inr arrOfSpoolFile, s4) \<Rightarrow> (Inr (SpoolFiles arrOfSpoolFile), s4))))
      else if truthy_str (directory parms) then
        (let s0 = setTask (''Waiting for '' @ str (IJob.jobid responseJobInfo) @ '' to enter OUTPUT'')
                    THIRTY_PERCENT s
         in case MonitorJobs_waitForStatusCommon w jobParms s0 of
              (Inl e, s1) \<Rightarrow> (Inl e, s1)
            | (Inr job, s1) \<Rightarrow>
                (let downloadParms =
                       \<lparr>IDownloadAllSpoolContentParms.jobid = IJob.jobid job,
                        jobname = IJob.jobname job,
                        outDir = directory parms,
                        extension =
                          (if truthy_str (ISubmitParms.extension parms)
                           then Defined (normalizeExtension w (str (ISubmitParms.extension parms)))
                           else Undefined)\<rparr>;
                     s2 = setTask
                         (''Downloading spool content for '' @ str (IJob.jobid job) @
                          (if isNullOrUndefined (IJob.retcode job) then []
                           else '', '' @ str (IJob.retcode job)))
                         SEVENTY_PERCENT s1
                 in case DownloadJobs_downloadAllSpoolContentCommon w downloadParms s2 of
                      (Inl e, s3) \<Rightarrow> (Inl e, s3)
                    | (Inr _, s3) \<Rightarrow> (Inr (Job job), s3)))
      else (Inr (Job responseJobInfo), s))"

definition submitJclString ::
  "env \<Rightarrow> string \<Rightarrow> string js \<Rightarrow> ISubmitParms \<Rightarrow> state \<Rightarrow> (error + submit_result) \<times> state"
where
  "submitJclString w missingJcl jcl' parms s =
     (case toNotBeNullOrUndefined jcl' missingJcl of
        Inl e \<Rightarrow> (Inl e, s)
      | Inr _ \<Rightarrow>
          (case toNotBeEqual jcl' (Defined []) missingJcl of
             Inl e \<Rightarrow> (Inl e, s)
           | Inr _ \<Rightarrow>
               (case submitJclCommon w
                       \<lparr>jcl = jcl', internalReaderRecfm = Undefined,
                        internalReaderLrecl = Undefined\<rparr> s of
                  (Inl e, s1) \<Rightarrow> (Inl e, s1)
                | (Inr responseJobInfo, s1) \<Rightarrow> checkSubmitOptions w parms responseJobInfo s1)))"

definition submitNotifyCommon ::
  "env \<Rightarrow> IJob \<Rightarrow> JOB_STATUS js \<Rightarrow> int js \<Rightarrow> state \<Rightarrow> (error + IJob) \<times> state" where
  "submitNotifyCommon w job status' watchDelay' s =
     (case keysToBeDefined [IJob.jobname job, IJob.jobid job]
             ''The job object you provide must contain both 'jobname' and 'jobid'.'' of
        Inl e \<Rightarrow> (Inl e, s)
      | Inr _ \<Rightarrow>
          MonitorJobs_waitForStatusCommon w
            \<lparr>IMonitorJobWaitForParms.jobname = IJob.jobname job,
             jobid = IJob.jobid job,
             status = status',
             maxAttempts = Undefined,
             watchDelay = watchDelay'\<rparr> s)"

definition submitJclNotifyCommon ::
  "env \<Rightarrow> ISubmitJclNotifyParm \<Rightarrow> state \<Rightarrow> (error + IJob) \<times> state" where
  "submitJclNotifyCommon w parms s =
     (case submitJclCommon w parms s of
        (Inl e, s1) \<Rightarrow> (Inl e, s1)
      | (Inr job, s1) \<Rightarrow>
          submitNotifyCommon w job (ISubmitJclNotifyParm.status parms)
            (ISubmitJclNotifyParm.watchDelay parms) s1)"

definition submitJclNotify ::
  "env \<Rightarrow> string js \<Rightarrow> string js \<Rightarrow> string js \<Rightarrow> state \<Rightarrow> (error + IJob) \<times> state" where
  "submitJclNotify w jcl' internalReaderRecfm' internalReaderLrecl' s =
     submitJclNotifyCommon w
       \<lparr>jcl = jcl', internalReaderRecfm = internalReaderRecfm',
        internalReaderLrecl = internalReaderLrecl',
        ISubmitJclNotifyParm.status = Undefined,
        ISubmitJclNotifyParm.watchDelay = Undefined\<rparr> s"

definition submitJobNotifyCommon ::
  "env \<Rightarrow> ISubmitJobNotifyParm \<Rightarrow> state \<Rightarrow> (error + IJob) \<times> state" where
  "submitJobNotifyCommon w parms s =
     (case keysToBeDefined [jobDataSet parms]
             ''You must provide a data set containing JCL to submit in parms.jobDataSet.'' of
        Inl e \<Rightarrow> (Inl e, s)
      | Inr _ \<Rightarrow>
          (case submitJobCommon w parms s of
             (Inl e, s1) \<Rightarrow> (Inl e, s1)
           | (Inr job, s1) \<Rightarrow>
               submitNotifyCommon w job (ISubmitJobNotifyParm.status parms)
                 (ISubmitJobNotifyParm.watchDelay parms) s1))"

definition submitJobNotify :: "env \<Rightarrow> string js \<Rightarrow> state \<Rightarrow> (error + IJob) \<times> state" where
  "submitJobNotify w jobDataSet' s =
     submitJobNotifyCommon w
       \<lparr>jobDataSet = jobDataSet', ISubmitJobNotifyParm.status = Undefined,
        ISubmitJobNotifyParm.watchDelay = Undefined\<rparr> s"

section \<open>The workflow start handler\<close>

record IAutomationStatus =
  currentStepName :: "string js"

record IWorkflowInfo =
  automationStatus :: "IAutomationStatus js"
  statusName :: "string js"

text \<open>\<open>params.arguments\<close>, the command line arguments the handler reads.\<close>

record arguments =
  workflowKey :: "string js"
  resolveConflict :: "string js"
  stepName :: "string js"
  performOneStep :: "bool js"
  wait :: "bool js"

text \<open>
  What the handler does to the outside is recorded, in order: the two remote calls, and
  \<open>Sleep ms\<close>, a wait of \<open>ms\<close> milliseconds on a timer.  The handler has no statement
  that waits (no \<open>setTimeout\<close>, no sleep between two turns of its loop), so nothing
  below records a \<open>Sleep\<close>; the constructor is there so that a record of what was
  done can show that no wait took place.
\<close>

datatype wcall =
    StartWorkflow "string js" "string js" "string js" bool
  | GetWorkflowProperties "string js"
  | Sleep nat

text \<open>
  \<open>StartWorkflow.startWorkflow\<close> and \<open>PropertiesWorkflow.getWorkflowProperties\<close> are
  parameters, as above; the value \<open>startWorkflow\<close> resolves to is not used by the
  handler.  \<open>toString\<close> is the text the JavaScript runtime gives a thrown value in
  \<open>"Start workflow: " + err\<close>.
\<close>

record wenv =
  startWorkflow :: "wcall list \<Rightarrow> string js \<Rightarrow> string js \<Rightarrow> string js \<Rightarrow> bool \<Rightarrow> error + unit"
  getWorkflowProperties :: "wcall list \<Rightarrow> string js \<Rightarrow> error + IWorkflowInfo"
  toString :: "error \<Rightarrow> string"

text \<open>
  The state of a command: the calls made so far, the argument object (shared by
  \<open>params.arguments\<close> and \<open>this.arguments\<close>), the object last given to
  \<open>params.response.data.setObj\<close>, and the lines written by
  \<open>params.response.console.log\<close>.
\<close>

record hstate =
  wcalls :: "wcall list"
  arguments :: arguments
  dataObj :: "string option"
  console :: "string list"

definition StartWorkflow_startWorkflow ::
  "wenv \<Rightarrow> string js \<Rightarrow> string js \<Rightarrow> string js \<Rightarrow> bool \<Rightarrow> hstate \<Rightarrow> (error + unit) \<times> hstate"
where
  "StartWorkflow_startWorkflow w key resolve step subsequent s =
     (startWorkflow w (wcalls s) key resolve step subsequent,
      s\<lparr>wcalls := wcalls s @ [StartWorkflow key resolve step subsequent]\<rparr>)"

definition PropertiesWorkflow_getWorkflowProperties ::
  "wenv \<Rightarrow> string js \<Rightarrow> hstate \<Rightarrow> (error + IWorkflowInfo) \<times> hstate" where
  "PropertiesWorkflow_getWorkflowProperties w key s =
     (getWorkflowProperties w (wcalls s) key,
      s\<lparr>wcalls := wcalls s @ [GetWorkflowProperties key]\<rparr>)"

definition report :: "string \<Rightarrow> string \<Rightarrow> hstate \<Rightarrow> hstate" where
  "report obj line s = s\<lparr>dataObj := Some obj, console := console s @ [line]\<rparr>"

text \<open>
  The loop \<open>while(x)\<close>.  It has no bound, so it is a partial function: \<open>None\<close> is a
  run that never leaves the loop.
\<close>

partial_function (option) waitLoop :: "wenv \<Rightarrow> hstate \<Rightarrow> ((error + unit) \<times> hstate) option"
where
  [code]: "waitLoop w s =
     (case PropertiesWorkflow_getWorkflowProperties w (workflowKey (arguments s)) s of
        (Inl e, s1) \<Rightarrow> Some (Inl e, s1)
      | (Inr response, s1) \<Rightarrow>
          (case automationStatus response of
             Defined a \<Rightarrow>
               if isNullOrUndefined (currentStepName a) then
                 (if statusName response = Defined ''complete''
                  then Some (Inr (), report ''Complete.'' ''Workflow completed successfully.'' s1)
                  else Some (Inr (), report ''Fail.'' ''Workflow failed.'' s1))
               else waitLoop w s1
           | _ \<Rightarrow> waitLoop w s1))"

definition processCmd :: "wenv \<Rightarrow> hstate \<Rightarrow> ((error + unit) \<times> hstate) option" where
  "processCmd w s =
     (let s0 = (if isNullOrUndefined (performOneStep (arguments s))
                then s\<lparr>arguments := (arguments s)\<lparr>performOneStep := Defined False\<rparr>\<rparr>
                else s)
      in case StartWorkflow_startWorkflow w
                (workflowKey (arguments s0)) (resolveConflict (arguments s0))
                (arguments.stepName (arguments s0))
                (\<not> truthy (performOneStep (arguments s0))) s0 of
           (Inl err, s1) \<Rightarrow> Some (Inl (ThrownString (''Start workflow: '' @ toString w err)), s1)
         | (Inr _, s1) \<Rightarrow>
             if truthy (wait (arguments s1)) then waitLoop w s1
             else Some (Inr (), report ''Started.'' ''Workflow started.'' s1))"

section \<open>Example inputs\<close>

text \<open>A submitted job, three spool files, and remote systems that answer every call.\<close>

definition job0 :: IJob where
  "job0 = \<lparr>IJob.jobname = Defined ''TESTJOB'', jobid = Defined ''JOB00042'',
            status = Defined ''INPUT'', retcode = Null\<rparr>"

definition file1 :: IJobFile where
  "file1 = \<lparr>IJobFile.id' = 101, ddname = Defined ''JESMSGLG'', stepname = Defined ''JES2'',
             procstep = Null\<rparr>"

definition file2 :: IJobFile where
  "file2 = \<lparr>IJobFile.id' = 102, ddname = Defined ''JESJCL'', stepname = Defined ''JES2'',
             procstep = Null\<rparr>"

definition file3 :: IJobFile where
  "file3 = \<lparr>IJobFile.id' = 103, ddname = Defined ''SYSOUT'', stepname = Defined ''STEP1'',
             procstep = Defined ''PROC1''\<rparr>"

definition env0 :: env where
  "env0 =
     \<lparr>putExpectJSON = (\<lambda>h hs b. Inr job0),
      waitForStatusCommon =
        (\<lambda>h p. if IMonitorJobWaitForParms.status p = Defined ACTIVE
                then Inr (job0\<lparr>IJob.status := Defined ''ACTIVE''\<rparr>)
                else Inr (job0\<lparr>IJob.status := Defined ''OUTPUT'', retcode := Defined ''CC 0000''\<rparr>)),
      getSpoolFilesForJob = (\<lambda>h j. Inr [file1, file2, file3]),
      getSpoolContent = (\<lambda>h f. Inr (''content of '' @ str (ddname f))),
      downloadAllSpoolContentCommon = (\<lambda>h p. Inr ()),
      normalizeExtension = (\<lambda>e. if take 1 e = ''.'' then e else ''.'' @ e)\<rparr>"

text \<open>The same system, except that the content of the second spool file cannot be read.\<close>

definition env1 :: env where
  "env1 = env0\<lparr>getSpoolContent :=
     (\<lambda>h f. if IJobFile.id' f = 102 then Inl (RemoteCallFailure ''HTTP 500'')
             else getSpoolContent env0 h f)\<rparr>"

text \<open>The same system, except that the job document it answers a PUT with has no job id.\<close>

definition env2 :: env where
  "env2 = env0\<lparr>putExpectJSON := (\<lambda>h hs b. Inr (job0\<lparr>IJob.jobid := Undefined\<rparr>))\<rparr>"

definition s0 :: state where
  "s0 = \<lparr>calls = [], task = Some \<lparr>statusMessage = [], percentComplete = 0\<rparr>\<rparr>"

definition parms0 :: ISubmitParms where
  "parms0 = \<lparr>waitForActive = Undefined, viewAllSpoolContent = Undefined,
              waitForOutput = Undefined, directory = Undefined,
              extension = Undefined, maxAttempts = Undefined, watchDelay = Undefined\<rparr>"

section \<open>Notions used to state the properties of the wait loop\<close>

text \<open>
  A response ends the loop when it has an \<open>automationStatus\<close> whose \<open>currentStepName\<close>
  is \<open>null\<close> or absent.
\<close>

definition terminal :: "IWorkflowInfo \<Rightarrow> bool" where
  "terminal response =
     (case automationStatus response of
        Defined a \<Rightarrow> isNullOrUndefined (currentStepName a)
      | _ \<Rightarrow> False)"

text \<open>The state after \<open>n\<close> more property queries, and the answer to query number \<open>i\<close>.\<close>

definition queried :: "nat \<Rightarrow> hstate \<Rightarrow> hstate" where
  "queried n s =
     s\<lparr>wcalls := wcalls s @ replicate n (GetWorkflowProperties (workflowKey (arguments s)))\<rparr>"

definition answer :: "wenv \<Rightarrow> hstate \<Rightarrow> nat \<Rightarrow> error + IWorkflowInfo" where
  "answer w s i = getWorkflowProperties w (wcalls (queried i s)) (workflowKey (arguments s))"

text \<open>A response that is there and does not end the loop.\<close>

definition pending :: "error + IWorkflowInfo \<Rightarrow> bool" where
  "pending a = (case a of Inl e \<Rightarrow> False | Inr response \<Rightarrow> \<not> terminal response)"

section \<open>Example workflows\<close>

text \<open>
  A workflow that is in progress until three calls have been made and complete from
  then on; one whose responses have no \<open>automationStatus\<close> until two calls have been
  made; one that cannot be started; and one whose responses never have an
  \<open>automationStatus\<close>.
\<close>

definition inProgress :: IWorkflowInfo where
  "inProgress = \<lparr>automationStatus = Defined \<lparr>currentStepName = Defined ''step2''\<rparr>,
                 statusName = Defined ''automation-in-progress''\<rparr>"

definition complete :: IWorkflowInfo where
  "complete = \<lparr>automationStatus = Defined \<lparr>currentStepName = Null\<rparr>,
               statusName = Defined ''complete''\<rparr>"

definition failed :: IWorkflowInfo where
  "failed = \<lparr>automationStatus = Defined \<lparr>currentStepName = Undefined\<rparr>,
             statusName = Defined ''failed''\<rparr>"

definition noStatus :: IWorkflowInfo where
  "noStatus = \<lparr>automationStatus = Undefined, statusName = Defined ''complete''\<rparr>"

definition wenv0 :: wenv where
  "wenv0 =
     \<lparr>startWorkflow = (\<lambda>h key resolve step subsequent. Inr ()),
      getWorkflowProperties = (\<lambda>h key. if length h < 3 then Inr inProgress else Inr complete),
      toString = (\<lambda>e. case e of MissingParameter m \<Rightarrow> ''Error: '' @ m
                              | RemoteCallFailure m \<Rightarrow> ''Error: '' @ m
                              | ThrownString m \<Rightarrow> m)\<rparr>"

definition wenv1 :: wenv where
  "wenv1 = wenv0\<lparr>getWorkflowProperties :=
     (\<lambda>h key. if length h < 2 then Inr noStatus else Inr complete)\<rparr>"

definition wenv2 :: wenv where
  "wenv2 = wenv0\<lparr>startWorkflow :=
     (\<lambda>h key resolve step subsequent. Inl (RemoteCallFailure ''HTTP 404''))\<rparr>"

definition wenv3 :: wenv where
  "wenv3 = wenv0\<lparr>getWorkflowProperties := (\<lambda>h key. Inr noStatus)\<rparr>"

text \<open>A workflow whose properties can be read once and not again.\<close>

definition wenv4 :: wenv where
  "wenv4 = wenv0\<lparr>getWorkflowProperties :=
     (\<lambda>h key. if length h < 2 then Inr inProgress else Inl (RemoteCallFailure ''HTTP 401''))\<rparr>"

text \<open>A workflow that is in progress until two calls have been made and has failed then.\<close>

definition wenv5 :: wenv where
  "wenv5 = wenv0\<lparr>getWorkflowProperties :=
     (\<lambda>h key. if length h < 2 then Inr inProgress else Inr failed)\<rparr>"

definition hs0 :: hstate where
  "hs0 = \<lparr>wcalls = [],
          arguments = \<lparr>workflowKey = Defined ''key1'', resolveConflict = Undefined,
                       stepName = Undefined, performOneStep = Undefined,
                       wait = Defined True\<rparr>,
          dataObj = None, console = []\<rparr>"

section \<open>Notions used to state how failures of remote calls travel\<close>

text \<open>The error, if any, with which the remote system answers a call made after \<open>h\<close>.\<close>

fun failure :: "env \<Rightarrow> call list \<Rightarrow> call \<Rightarrow> error option" where
  "failure w h (PutExpectJSON headers body) =
     (case putExpectJSON w h headers body of Inl e \<Rightarrow> Some e | Inr _ \<Rightarrow> None)"
| "failure w h (WaitForStatusCommon parms) =
     (case waitForStatusCommon w h parms of Inl e \<Rightarrow> Some e | Inr _ \<Rightarrow> None)"
| "failure w h (GetSpoolFilesForJob job) =
     (case getSpoolFilesForJob w h job of Inl e \<Rightarrow> Some e | Inr _ \<Rightarrow> None)"
| "failure w h (GetSpoolContent file) =
     (case getSpoolContent w h file of Inl e \<Rightarrow> Some e | Inr _ \<Rightarrow> None)"
| "failure w h (DownloadAllSpoolContentCommon parms) =
     (case downloadAllSpoolContentCommon w h parms of Inl e \<Rightarrow> Some e | Inr _ \<Rightarrow> None)"

text \<open>
  The calls \<open>cs\<close>, made in this order after \<open>h\<close>, and the outcome \<open>r\<close> of the operation
  that made them: a call that fails is the last call, and the outcome is its error.
\<close>

fun propagates :: "env \<Rightarrow> call list \<Rightarrow> call list \<Rightarrow> error + 'a \<Rightarrow> bool" where
  "propagates w h [] r = True"
| "propagates w h (c # cs) r =
     (case failure w h c of
        None \<Rightarrow> propagates w (h @ [c]) cs r
      | Some e \<Rightarrow> cs = [] \<and> r = Inl e)"

text \<open>The same for a run from state \<open>s\<close> that ends with outcome and state \<open>out\<close>.\<close>

definition propagates_from :: "env \<Rightarrow> state \<Rightarrow> (error + 'a) \<times> state \<Rightarrow> bool" where
  "propagates_from w s out =
     (take (length (calls s)) (calls (snd out)) = calls s \<and>
      propagates w (calls s) (drop (length (calls s)) (calls (snd out))) (fst out))"

section \<open>Option resolution in \<open>checkSubmitOptions\<close>\<close>

lemma calls_setTask: "calls (setTask message percent s) = calls s"
  by (simp add: setTask_def split: option.splits)

text \<open>
  C9.  When none of \<open>waitForActive\<close>, \<open>viewAllSpoolContent\<close>, \<open>waitForOutput\<close> and
  \<open>directory\<close> is set, \<open>checkSubmitOptions\<close> resolves to the job document it was given
  and leaves the state as it was: no call to \<open>MonitorJobs\<close>, \<open>GetJobs\<close> or
  \<open>DownloadJobs\<close> is made, and the progress task is not written to.
\<close>

theorem no_option_returns_submitted_job:
  assumes "\<not> truthy (waitForActive parms)"
    and "\<not> truthy (viewAllSpoolContent parms)"
    and "\<not> truthy (waitForOutput parms)"
    and "\<not> truthy_str (directory parms)"
  shows "checkSubmitOptions w parms responseJobInfo s = (Inr (Job responseJobInfo), s)"
  using assms by (simp add: checkSubmitOptions_def)

theorem no_option_returns_submitted_job_witness:
  "\<not> truthy (waitForActive parms0) \<and> \<not> truthy (viewAllSpoolContent parms0)
   \<and> \<not> truthy (waitForOutput parms0) \<and> \<not> truthy_str (directory parms0)
   \<and> checkSubmitOptions env0 parms0 job0 s0 = (Inr (Job job0), s0)"
  using no_option_returns_submitted_job [of parms0 env0 job0 s0]
  by (simp add: parms0_def)

text \<open>
  C1.  When \<open>waitForActive\<close> is set, whatever the other options are (\<open>directory\<close>,
  \<open>viewAllSpoolContent\<close>, \<open>waitForOutput\<close>), \<open>checkSubmitOptions\<close> makes exactly one
  call: \<open>MonitorJobs.waitForStatusCommon\<close> for the submitted job with target status
  \<open>ACTIVE\<close>.  Its outcome is the outcome of that call (the job snapshot, or the error),
  and no spool file is listed, read or downloaded.
\<close>

theorem waitForActive_first:
  assumes "truthy (waitForActive parms)"
    and "jobParms =
           \<lparr>IMonitorJobWaitForParms.jobname = IJob.jobname responseJobInfo,
            jobid = IJob.jobid responseJobInfo,
            status = Defined ACTIVE,
            maxAttempts = ISubmitParms.maxAttempts parms,
            watchDelay = ISubmitParms.watchDelay parms\<rparr>"
  shows "checkSubmitOptions w parms responseJobInfo s =
           (map_sum id Job (waitForStatusCommon w (calls s) jobParms),
            s\<lparr>calls := calls s @ [WaitForStatusCommon jobParms]\<rparr>)"
  using assms
  by (simp add: checkSubmitOptions_def MonitorJobs_waitForStatusCommon_def Let_def
        split: sum.splits)

theorem waitForActive_first_witness:
  "truthy (waitForActive (parms0\<lparr>waitForActive := Defined True, viewAllSpoolContent := Defined True,
                                directory := Defined ''out''\<rparr>))
   \<and> checkSubmitOptions env0
         (parms0\<lparr>waitForActive := Defined True, viewAllSpoolContent := Defined True,
                 directory := Defined ''out''\<rparr>) job0 s0 =
       (Inr (Job (job0\<lparr>IJob.status := Defined ''ACTIVE''\<rparr>)),
        s0\<lparr>calls :=
             [WaitForStatusCommon
                \<lparr>IMonitorJobWaitForParms.jobname = Defined ''TESTJOB'',
                 jobid = Defined ''JOB00042'', status = Defined ACTIVE,
                 maxAttempts = Undefined, watchDelay = Undefined\<rparr>]\<rparr>)"
  using waitForActive_first
    [of "parms0\<lparr>waitForActive := Defined True, viewAllSpoolContent := Defined True,
                 directory := Defined ''out''\<rparr>"
        "\<lparr>IMonitorJobWaitForParms.jobname = Defined ''TESTJOB'',
          jobid = Defined ''JOB00042'', status = Defined ACTIVE,
          maxAttempts = Undefined, watchDelay = Undefined\<rparr>" job0 env0 s0]
  by (simp add: parms0_def job0_def env0_def s0_def)

section \<open>Submission of JCL text\<close>

text \<open>
  C5.  When the JCL is present, \<open>submitJclCommon\<close> sends one PUT whose body is the JCL
  and whose headers are the two content headers, then \<open>X-IBM-Intrdr-Lrecl\<close>, then
  \<open>X-IBM-Intrdr-Recfm\<close>.  The record length is the caller's \<open>internalReaderLrecl\<close> when
  one is supplied and \<open>80\<close> otherwise; the record format is the caller's
  \<open>internalReaderRecfm\<close> when one is supplied and \<open>F\<close> otherwise.
\<close>

theorem intrdr_headers:
  assumes "\<not> isNullOrUndefined (jcl parms)"
    and "headers =
           [TEXT_PLAIN_UTF8, X_IBM_INTRDR_MODE_TEXT,
            Header ''X-IBM-Intrdr-Lrecl''
              (if truthy_str (internalReaderLrecl parms) then str (internalReaderLrecl parms)
               else ''80''),
            Header ''X-IBM-Intrdr-Recfm''
              (if truthy_str (internalReaderRecfm parms) then str (internalReaderRecfm parms)
               else ''F'')]"
  shows "submitJclCommon w parms s =
           (putExpectJSON w (calls s) headers (Text (jcl parms)),
            s\<lparr>calls := calls s @ [PutExpectJSON headers (Text (jcl parms))]\<rparr>)"
  using assms
  by (simp add: submitJclCommon_def keysToBeDefined_def ZosmfRestClient_putExpectJSON_def
        X_IBM_INTRDR_LRECL_80_def X_IBM_INTRDR_RECFM_F_def Let_def)

theorem intrdr_headers_witness:
  "\<not> isNullOrUndefined (Defined ''//A JOB'' :: string js)
   \<and> submitJclCommon env0
         \<lparr>jcl = Defined ''//A JOB'', internalReaderRecfm = Undefined,
          internalReaderLrecl = Undefined\<rparr> s0 =
       (Inr job0,
        s0\<lparr>calls :=
             [PutExpectJSON
                [TEXT_PLAIN_UTF8, X_IBM_INTRDR_MODE_TEXT,
                 Header ''X-IBM-Intrdr-Lrecl'' ''80'', Header ''X-IBM-Intrdr-Recfm'' ''F'']
                (Text (Defined ''//A JOB''))]\<rparr>)
   \<and> submitJclCommon env0
         \<lparr>jcl = Defined ''//A JOB'', internalReaderRecfm = Defined ''V'',
          internalReaderLrecl = Defined ''256''\<rparr> s0 =
       (Inr job0,
        s0\<lparr>calls :=
             [PutExpectJSON
                [TEXT_PLAIN_UTF8, X_IBM_INTRDR_MODE_TEXT,
                 Header ''X-IBM-Intrdr-Lrecl'' ''256'', Header ''X-IBM-Intrdr-Recfm'' ''V'']
                (Text (Defined ''//A JOB''))]\<rparr>)"
  using intrdr_headers
    [of "\<lparr>jcl = Defined ''//A JOB'', internalReaderRecfm = Undefined,
          internalReaderLrecl = Undefined\<rparr>"
        "[TEXT_PLAIN_UTF8, X_IBM_INTRDR_MODE_TEXT,
          Header ''X-IBM-Intrdr-Lrecl'' ''80'', Header ''X-IBM-Intrdr-Recfm'' ''F'']" env0 s0]
    intrdr_headers
    [of "\<lparr>jcl = Defined ''//A JOB'', internalReaderRecfm = Defined ''V'',
          internalReaderLrecl = Defined ''256''\<rparr>"
        "[TEXT_PLAIN_UTF8, X_IBM_INTRDR_MODE_TEXT,
          Header ''X-IBM-Intrdr-Lrecl'' ''256'', Header ''X-IBM-Intrdr-Recfm'' ''V'']" env0 s0]
  by (simp add: env0_def s0_def)

text \<open>
  C2, as the specification states it, fails for \<open>submitJclCommon\<close>: its check is
  \<open>keysToBeDefined\<close>, which an empty string passes.  With an empty JCL string the PUT is
  sent, with the default headers, and the answer of the remote system is returned.
\<close>

theorem submitJclCommon_sends_empty_jcl:
  "submitJclCommon env0
     \<lparr>jcl = Defined [], internalReaderRecfm = Undefined, internalReaderLrecl = Undefined\<rparr> s0 =
   (Inr job0,
    s0\<lparr>calls :=
         [PutExpectJSON
            [TEXT_PLAIN_UTF8, X_IBM_INTRDR_MODE_TEXT,
             Header ''X-IBM-Intrdr-Lrecl'' ''80'', Header ''X-IBM-Intrdr-Recfm'' ''F'']
            (Text (Defined []))]\<rparr>)"
  by (simp add: submitJclCommon_def keysToBeDefined_def ZosmfRestClient_putExpectJSON_def
        X_IBM_INTRDR_LRECL_80_def X_IBM_INTRDR_RECFM_F_def env0_def s0_def)

text \<open>
  C2, amended.  \<open>submitJclString\<close> fails with the missing-JCL error and makes no remote
  call when the JCL is \<open>null\<close>, \<open>undefined\<close> or the empty string.  \<open>submitJclCommon\<close>
  fails with its own missing-parameter error and makes no remote call when the JCL is
  \<open>null\<close> or \<open>undefined\<close>.
\<close>

theorem missing_jcl_rejected:
  "(isNullOrUndefined jcl' \<or> jcl' = Defined [] \<longrightarrow>
      submitJclString w missingJcl jcl' sparms s = (Inl (MissingParameter missingJcl), s))
   \<and> (isNullOrUndefined (jcl parms) \<longrightarrow>
      submitJclCommon w parms s =
        (Inl (MissingParameter
           (''You must provide a JCL string to submit. '' @
            ''The 'jcl' field of the provided parameters was undefined. '')), s))"
  by (auto simp add: submitJclString_def submitJclCommon_def toNotBeNullOrUndefined_def
        toNotBeEqual_def keysToBeDefined_def)

theorem missing_jcl_rejected_witness:
  "isNullOrUndefined (Null :: string js) \<and> isNullOrUndefined (Undefined :: string js)
   \<and> submitJclString env0 ''No JCL provided'' Null parms0 s0 =
        (Inl (MissingParameter ''No JCL provided''), s0)
   \<and> submitJclString env0 ''No JCL provided'' Undefined parms0 s0 =
        (Inl (MissingParameter ''No JCL provided''), s0)
   \<and> submitJclString env0 ''No JCL provided'' (Defined []) parms0 s0 =
        (Inl (MissingParameter ''No JCL provided''), s0)
   \<and> isNullOrUndefined (jcl \<lparr>jcl = Undefined, internalReaderRecfm = Undefined,
                              internalReaderLrecl = Undefined\<rparr>)
   \<and> submitJclCommon env0
        \<lparr>jcl = Undefined, internalReaderRecfm = Undefined, internalReaderLrecl = Undefined\<rparr> s0 =
        (Inl (MissingParameter
           (''You must provide a JCL string to submit. '' @
            ''The 'jcl' field of the provided parameters was undefined. '')), s0)"
  using missing_jcl_rejected
    [of Null env0 "''No JCL provided''" parms0 s0
        "\<lparr>jcl = Undefined, internalReaderRecfm = Undefined, internalReaderLrecl = Undefined\<rparr>"]
    missing_jcl_rejected
    [of Undefined env0 "''No JCL provided''" parms0 s0
        "\<lparr>jcl = Undefined, internalReaderRecfm = Undefined, internalReaderLrecl = Undefined\<rparr>"]
    missing_jcl_rejected
    [of "Defined []" env0 "''No JCL provided''" parms0 s0
        "\<lparr>jcl = Undefined, internalReaderRecfm = Undefined, internalReaderLrecl = Undefined\<rparr>"]
  by simp

section \<open>Notification on completion\<close>

lemma submitJclCommon_calls:
  "submitJclCommon w parms s = (Inr job, s1) \<Longrightarrow>
     \<exists>headers. s1 = s\<lparr>calls := calls s @ [PutExpectJSON headers (Text (jcl parms))]\<rparr>"
  by (auto simp add: submitJclCommon_def ZosmfRestClient_putExpectJSON_def Let_def
        split: sum.splits if_splits)

lemma submitJobCommon_calls:
  "submitJobCommon w parms s = (Inr job, s1) \<Longrightarrow>
     \<not> isNullOrUndefined (jobDataSet parms) \<and>
     (\<exists>body. s1 = s\<lparr>calls := calls s @ [PutExpectJSON [APPLICATION_JSON] body]\<rparr>)"
  by (auto simp add: submitJobCommon_def ZosmfRestClient_putExpectJSON_def keysToBeDefined_def
        Let_def split: sum.splits if_splits)

text \<open>
  C7.  In \<open>submitJclNotifyCommon\<close> and in \<open>submitJobNotifyCommon\<close>, when the submission
  has succeeded with a job document whose \<open>jobname\<close> or \<open>jobid\<close> is \<open>null\<close> or
  \<open>undefined\<close>, the operation fails with a missing-parameter error in the state the
  submission left: the PUT is the only call made, and
  \<open>MonitorJobs.waitForStatusCommon\<close> is never called.
\<close>

theorem notify_requires_jobname_and_jobid:
  assumes "isNullOrUndefined (IJob.jobname job) \<or> isNullOrUndefined (IJob.jobid job)"
    and "msg = ''The job object you provide must contain both 'jobname' and 'jobid'.''"
  shows "(submitJclCommon w jclParms s = (Inr job, s1) \<longrightarrow>
            submitJclNotifyCommon w jclParms s = (Inl (MissingParameter msg), s1)
            \<and> (\<exists>headers body. calls s1 = calls s @ [PutExpectJSON headers body]))
       \<and> (submitJobCommon w jobParms s = (Inr job, s1) \<longrightarrow>
            submitJobNotifyCommon w jobParms s = (Inl (MissingParameter msg), s1)
            \<and> (\<exists>headers body. calls s1 = calls s @ [PutExpectJSON headers body]))"
proof (intro conjI impI)
  assume a: "submitJclCommon w jclParms s = (Inr job, s1)"
  with assms show "submitJclNotifyCommon w jclParms s = (Inl (MissingParameter msg), s1)"
    by (auto simp add: submitJclNotifyCommon_def submitNotifyCommon_def keysToBeDefined_def)
  from submitJclCommon_calls[OF a]
  show "\<exists>headers body. calls s1 = calls s @ [PutExpectJSON headers body]"
    by auto
next
  assume a: "submitJobCommon w jobParms s = (Inr job, s1)"
  from submitJobCommon_calls[OF a] have d: "\<not> isNullOrUndefined (jobDataSet jobParms)"
    and c: "\<exists>body. s1 = s\<lparr>calls := calls s @ [PutExpectJSON [APPLICATION_JSON] body]\<rparr>"
    by auto
  from a d assms show "submitJobNotifyCommon w jobParms s = (Inl (MissingParameter msg), s1)"
    by (auto simp add: submitJobNotifyCommon_def submitNotifyCommon_def keysToBeDefined_def)
  from c show "\<exists>headers body. calls s1 = calls s @ [PutExpectJSON headers body]"
    by auto
qed

theorem notify_requires_jobname_and_jobid_witness:
  "isNullOrUndefined (IJob.jobid (job0\<lparr>IJob.jobid := Undefined\<rparr>))
   \<and> submitJclCommon env2
         \<lparr>jcl = Defined ''//A JOB'', internalReaderRecfm = Undefined,
          internalReaderLrecl = Undefined, ISubmitJclNotifyParm.status = Undefined,
          ISubmitJclNotifyParm.watchDelay = Undefined\<rparr> s0 =
       (Inr (job0\<lparr>IJob.jobid := Undefined\<rparr>),
        s0\<lparr>calls :=
             [PutExpectJSON
                [TEXT_PLAIN_UTF8, X_IBM_INTRDR_MODE_TEXT,
                 Header ''X-IBM-Intrdr-Lrecl'' ''80'', Header ''X-IBM-Intrdr-Recfm'' ''F'']
                (Text (Defined ''//A JOB''))]\<rparr>)
   \<and> submitJclNotifyCommon env2
         \<lparr>jcl = Defined ''//A JOB'', internalReaderRecfm = Undefined,
          internalReaderLrecl = Undefined, ISubmitJclNotifyParm.status = Undefined,
          ISubmitJclNotifyParm.watchDelay = Undefined\<rparr> s0 =
       (Inl (MissingParameter
               ''The job object you provide must contain both 'jobname' and 'jobid'.''),
        s0\<lparr>calls :=
             [PutExpectJSON
                [TEXT_PLAIN_UTF8, X_IBM_INTRDR_MODE_TEXT,
                 Header ''X-IBM-Intrdr-Lrecl'' ''80'', Header ''X-IBM-Intrdr-Recfm'' ''F'']
                (Text (Defined ''//A JOB''))]\<rparr>)
   \<and> submitJobCommon env2
         \<lparr>jobDataSet = Defined ''A.B'', ISubmitJobNotifyParm.status = Undefined,
          ISubmitJobNotifyParm.watchDelay = Undefined\<rparr> s0 =
       (Inr (job0\<lparr>IJob.jobid := Undefined\<rparr>),
        s0\<lparr>calls :=
             [PutExpectJSON [APPLICATION_JSON] (JsonFile (''//'' @ [CHR 0x27] @ ''A.B'' @ [CHR 0x27]))]\<rparr>)
   \<and> submitJobNotifyCommon env2
         \<lparr>jobDataSet = Defined ''A.B'', ISubmitJobNotifyParm.status = Undefined,
          ISubmitJobNotifyParm.watchDelay = Undefined\<rparr> s0 =
       (Inl (MissingParameter
               ''The job object you provide must contain both 'jobname' and 'jobid'.''),
        s0\<lparr>calls :=
             [PutExpectJSON [APPLICATION_JSON] (JsonFile (''//'' @ [CHR 0x27] @ ''A.B'' @ [CHR 0x27]))]\<rparr>)"
proof -
  let ?job = "job0\<lparr>IJob.jobid := Undefined\<rparr>"
  let ?msg = "''The job object you provide must contain both 'jobname' and 'jobid'.''"
  let ?jclParms = "\<lparr>jcl = Defined ''//A JOB'', internalReaderRecfm = Undefined,
          internalReaderLrecl = Undefined, ISubmitJclNotifyParm.status = Undefined,
          ISubmitJclNotifyParm.watchDelay = Undefined\<rparr>"
  let ?jobParms = "\<lparr>jobDataSet = Defined ''A.B'', ISubmitJobNotifyParm.status = Undefined,
          ISubmitJobNotifyParm.watchDelay = Undefined\<rparr>"
  let ?s1 = "s0\<lparr>calls :=
             [PutExpectJSON
                [TEXT_PLAIN_UTF8, X_IBM_INTRDR_MODE_TEXT,
                 Header ''X-IBM-Intrdr-Lrecl'' ''80'', Header ''X-IBM-Intrdr-Recfm'' ''F'']
                (Text (Defined ''//A JOB''))]\<rparr>"
  let ?s2 = "s0\<lparr>calls :=
             [PutExpectJSON [APPLICATION_JSON] (JsonFile (''//'' @ [CHR 0x27] @ ''A.B'' @ [CHR 0x27]))]\<rparr>"
  have absent: "isNullOrUndefined (IJob.jobname ?job) \<or> isNullOrUndefined (IJob.jobid ?job)"
    by simp
  have jcl: "submitJclCommon env2 ?jclParms s0 = (Inr ?job, ?s1)"
    by (simp add: submitJclCommon_def keysToBeDefined_def ZosmfRestClient_putExpectJSON_def
          X_IBM_INTRDR_LRECL_80_def X_IBM_INTRDR_RECFM_F_def env2_def env0_def s0_def)
  have job: "submitJobCommon env2 ?jobParms s0 = (Inr ?job, ?s2)"
    by (simp add: submitJobCommon_def keysToBeDefined_def ZosmfRestClient_putExpectJSON_def
          env2_def env0_def s0_def)
  from notify_requires_jobname_and_jobid [OF absent refl, of env2 ?jclParms s0 ?s1 ?jobParms]
       notify_requires_jobname_and_jobid [OF absent refl, of env2 ?jclParms s0 ?s2 ?jobParms]
       jcl job
  show ?thesis by simp
qed

section \<open>Collecting the content of all spool files\<close>

text \<open>
  The loop over the spool files.  When every file can be read, the loop appends one
  entry per file to \<open>arrOfSpoolFile\<close>, in the order of the files, after one
  \<open>GetJobs.getSpoolContent\<close> call per file; the answer for the file at index \<open>i\<close> is
  the one the remote system gives after the calls for the files before it.
\<close>

lemma spoolLoop_ok:
  assumes "\<forall>i<length files. \<exists>d.
      getSpoolContent w (calls s @ map GetSpoolContent (take i files)) (files ! i) = Inr d"
  shows "\<exists>new. spoolLoop w files arr s =
           (Inr (arr @ new), s\<lparr>calls := calls s @ map GetSpoolContent files\<rparr>)
         \<and> length new = length files
         \<and> (\<forall>i<length files. 
              getSpoolContent w (calls s @ map GetSpoolContent (take i files)) (files ! i) =
                Inr (data (new ! i))
              \<and> ISpoolFile.id' (new ! i) = IJobFile.id' (files ! i)
              \<and> ddName (new ! i) = ddname (files ! i)
              \<and> ISpoolFile.stepName (new ! i) = stepname (files ! i)
              \<and> procName (new ! i) = procstep (files ! i))"
  using assms
proof (induction files arbitrary: arr s)
  case Nil
  then show ?case by simp
next
  case (Cons f fs)
  from Cons.prems[rule_format, of 0] obtain d0
    where d0: "getSpoolContent w (calls s) f = Inr d0" by auto
  let ?s' = "s\<lparr>calls := calls s @ [GetSpoolContent f]\<rparr>"
  let ?e = "\<lparr>ISpoolFile.id' = IJobFile.id' f, ddName = ddname f, stepName = stepname f,
             procName = procstep f, data = d0\<rparr>"
  have later: "\<forall>i<length fs. \<exists>d.
      getSpoolContent w (calls ?s' @ map GetSpoolContent (take i fs)) (fs ! i) = Inr d"
  proof (intro allI impI)
    fix i assume "i < length fs"
    then have "Suc i < length (f # fs)" by simp
    from Cons.prems[rule_format, OF this] show "\<exists>d.
      getSpoolContent w (calls ?s' @ map GetSpoolContent (take i fs)) (fs ! i) = Inr d"
      by simp
  qed
  from Cons.IH[OF later, of "arr @ [?e]"] obtain new where
    run: "spoolLoop w fs (arr @ [?e]) ?s' =
           (Inr ((arr @ [?e]) @ new), ?s'\<lparr>calls := calls ?s' @ map GetSpoolContent fs\<rparr>)"
    and len: "length new = length fs"
    and each: "\<forall>i<length fs.
              getSpoolContent w (calls ?s' @ map GetSpoolContent (take i fs)) (fs ! i) =
                Inr (data (new ! i))
              \<and> ISpoolFile.id' (new ! i) = IJobFile.id' (fs ! i)
              \<and> ddName (new ! i) = ddname (fs ! i)
              \<and> ISpoolFile.stepName (new ! i) = stepname (fs ! i)
              \<and> procName (new ! i) = procstep (fs ! i)"
    by blast
  have "spoolLoop w (f # fs) arr s =
           (Inr (arr @ (?e # new)), s\<lparr>calls := calls s @ map GetSpoolContent (f # fs)\<rparr>)"
    using d0 run by (simp add: GetJobs_getSpoolContent_def)
  moreover have "length (?e # new) = length (f # fs)"
    using len by simp
  moreover have "\<forall>i<length (f # fs).
              getSpoolContent w (calls s @ map GetSpoolContent (take i (f # fs))) ((f # fs) ! i) =
                Inr (data ((?e # new) ! i))
              \<and> ISpoolFile.id' ((?e # new) ! i) = IJobFile.id' ((f # fs) ! i)
              \<and> ddName ((?e # new) ! i) = ddname ((f # fs) ! i)
              \<and> ISpoolFile.stepName ((?e # new) ! i) = stepname ((f # fs) ! i)
              \<and> procName ((?e # new) ! i) = procstep ((f # fs) ! i)"
  proof (intro allI impI)
    fix i assume i: "i < length (f # fs)"
    show "getSpoolContent w (calls s @ map GetSpoolContent (take i (f # fs))) ((f # fs) ! i) =
                Inr (data ((?e # new) ! i))
              \<and> ISpoolFile.id' ((?e # new) ! i) = IJobFile.id' ((f # fs) ! i)
              \<and> ddName ((?e # new) ! i) = ddname ((f # fs) ! i)
              \<and> ISpoolFile.stepName ((?e # new) ! i) = stepname ((f # fs) ! i)
              \<and> procName ((?e # new) ! i) = procstep ((f # fs) ! i)"
    proof (cases i)
      case 0
      then show ?thesis using d0 by simp
    next
      case (Suc j)
      with i have "j < length fs" by simp
      with each show ?thesis using Suc by simp
    qed
  qed
  ultimately show ?case by blast
qed

text \<open>
  When the file at index \<open>k\<close> is the first that cannot be read, the loop stops there
  with that error: the files after it are never asked for, and the entries collected
  so far are dropped.
\<close>

lemma spoolLoop_fail:
  assumes "k < length files"
    and "\<forall>i<k. \<exists>d.
      getSpoolContent w (calls s @ map GetSpoolContent (take i files)) (files ! i) = Inr d"
    and "getSpoolContent w (calls s @ map GetSpoolContent (take k files)) (files ! k) = Inl e"
  shows "spoolLoop w files arr s =
           (Inl e, s\<lparr>calls := calls s @ map GetSpoolContent (take (Suc k) files)\<rparr>)"
  using assms
proof (induction files arbitrary: arr s k)
  case Nil
  then show ?case by simp
next
  case (Cons f fs)
  show ?case
  proof (cases k)
    case 0
    with Cons.prems(3) show ?thesis
      by (simp add: GetJobs_getSpoolContent_def)
  next
    case (Suc j)
    from Cons.prems(2)[rule_format, of 0] Suc obtain d0
      where d0: "getSpoolContent w (calls s) f = Inr d0" by auto
    let ?s' = "s\<lparr>calls := calls s @ [GetSpoolContent f]\<rparr>"
    let ?e = "\<lparr>ISpoolFile.id' = IJobFile.id' f, ddName = ddname f, stepName = stepname f,
               procName = procstep f, data = d0\<rparr>"
    have j: "j < length fs" using Cons.prems(1) Suc by simp
    have before: "\<forall>i<j. \<exists>d.
      getSpoolContent w (calls ?s' @ map GetSpoolContent (take i fs)) (fs ! i) = Inr d"
    proof (intro allI impI)
      fix i assume "i < j"
      then have "Suc i < k" using Suc by simp
      from Cons.prems(2)[rule_format, OF this] show "\<exists>d.
        getSpoolContent w (calls ?s' @ map GetSpoolContent (take i fs)) (fs ! i) = Inr d"
        by simp
    qed
    have at: "getSpoolContent w (calls ?s' @ map GetSpoolContent (take j fs)) (fs ! j) = Inl e"
      using Cons.prems(3) Suc by simp
    from Cons.IH[OF j before at, of "arr @ [?e]"] d0 Suc
    show ?thesis
      by (simp add: GetJobs_getSpoolContent_def)
  qed
qed

text \<open>
  C3.  With \<open>viewAllSpoolContent\<close> set and \<open>waitForActive\<close> not set, when the wait for
  status \<open>OUTPUT\<close> returns a job, the spool files of that job are listed and each file
  can be read, \<open>checkSubmitOptions\<close> resolves to a list with exactly one entry per
  listed file, in the order of the listing.  The entry at index \<open>i\<close> carries \<open>id\<close>,
  \<open>ddname\<close>, \<open>stepname\<close> and \<open>procstep\<close> of the file at index \<open>i\<close> and, as \<open>data\<close>, the
  content fetched for it.  The calls made are the wait, the listing, and then one
  \<open>getSpoolContent\<close> per file, in the order of the listing.
\<close>

theorem viewAllSpoolContent_in_order:
  assumes "\<not> truthy (waitForActive parms)"
    and "truthy (viewAllSpoolContent parms)"
    and "jobParms =
           \<lparr>IMonitorJobWaitForParms.jobname = IJob.jobname responseJobInfo,
            jobid = IJob.jobid responseJobInfo,
            status = Defined OUTPUT,
            maxAttempts = ISubmitParms.maxAttempts parms,
            watchDelay = ISubmitParms.watchDelay parms\<rparr>"
    and "waitForStatusCommon w (calls s) jobParms = Inr job"
    and "before = calls s @ [WaitForStatusCommon jobParms, GetSpoolFilesForJob job]"
    and "getSpoolFilesForJob w (calls s @ [WaitForStatusCommon jobParms]) job = Inr files"
    and "\<forall>i<length files. \<exists>d.
           getSpoolContent w (before @ map GetSpoolContent (take i files)) (files ! i) = Inr d"
  shows "\<exists>arrOfSpoolFile s'.
           checkSubmitOptions w parms responseJobInfo s = (Inr (SpoolFiles arrOfSpoolFile), s')
         \<and> calls s' = before @ map GetSpoolContent files
         \<and> length arrOfSpoolFile = length files
         \<and> (\<forall>i<length files.
              getSpoolContent w (before @ map GetSpoolContent (take i files)) (files ! i) =
                Inr (data (arrOfSpoolFile ! i))
              \<and> ISpoolFile.id' (arrOfSpoolFile ! i) = IJobFile.id' (files ! i)
              \<and> ddName (arrOfSpoolFile ! i) = ddname (files ! i)
              \<and> ISpoolFile.stepName (arrOfSpoolFile ! i) = stepname (files ! i)
              \<and> procName (arrOfSpoolFile ! i) = procstep (files ! i))"
proof -
  let ?s0 = "setTask (''Waiting for '' @ str (IJob.jobid responseJobInfo) @ '' to enter OUTPUT'')
               THIRTY_PERCENT s"
  let ?s1 = "?s0\<lparr>calls := calls ?s0 @ [WaitForStatusCommon jobParms]\<rparr>"
  let ?s2 = "setTask (''Retrieving spool content for '' @ str (IJob.jobid job) @
                (if isNullOrUndefined (IJob.retcode job) then []
                 else '', '' @ str (IJob.retcode job))) SEVENTY_PERCENT ?s1"
  let ?s3 = "?s2\<lparr>calls := calls ?s2 @ [GetSpoolFilesForJob job]\<rparr>"
  have c3: "calls ?s3 = before"
    using assms(5) by (simp add: calls_setTask)
  from assms(7) c3 have "\<forall>i<length files. \<exists>d.
      getSpoolContent w (calls ?s3 @ map GetSpoolContent (take i files)) (files ! i) = Inr d"
    by simp
  from spoolLoop_ok[OF this, of "[]"] obtain new where
    run: "spoolLoop w files [] ?s3 = (Inr new, ?s3\<lparr>calls := calls ?s3 @ map GetSpoolContent files\<rparr>)"
    and len: "length new = length files"
    and each: "\<forall>i<length files.
              getSpoolContent w (calls ?s3 @ map GetSpoolContent (take i files)) (files ! i) =
                Inr (data (new ! i))
              \<and> ISpoolFile.id' (new ! i) = IJobFile.id' (files ! i)
              \<and> ddName (new ! i) = ddname (files ! i)
              \<and> ISpoolFile.stepName (new ! i) = stepname (files ! i)
              \<and> procName (new ! i) = procstep (files ! i)"
    by auto
  have "checkSubmitOptions w parms responseJobInfo s =
          (Inr (SpoolFiles new), ?s3\<lparr>calls := calls ?s3 @ map GetSpoolContent files\<rparr>)"
    using assms(1-4,6) run
    by (simp add: checkSubmitOptions_def MonitorJobs_waitForStatusCommon_def
          GetJobs_getSpoolFilesForJob_def calls_setTask Let_def)
  moreover have "calls (?s3\<lparr>calls := calls ?s3 @ map GetSpoolContent files\<rparr>) =
      before @ map GetSpoolContent files"
    using c3 by simp
  ultimately show ?thesis
    using len each c3 by (intro exI conjI) (assumption | simp)+
qed

theorem viewAllSpoolContent_in_order_witness:
  "\<not> truthy (waitForActive (parms0\<lparr>viewAllSpoolContent := Defined True\<rparr>))
   \<and> truthy (viewAllSpoolContent (parms0\<lparr>viewAllSpoolContent := Defined True\<rparr>))
   \<and> (\<exists>arrOfSpoolFile s'.
         checkSubmitOptions env0 (parms0\<lparr>viewAllSpoolContent := Defined True\<rparr>) job0 s0 =
           (Inr (SpoolFiles arrOfSpoolFile), s')
         \<and> drop 2 (calls s') = map GetSpoolContent [file1, file2, file3]
         \<and> length arrOfSpoolFile = length [file1, file2, file3]
         \<and> (\<forall>i<length [file1, file2, file3].
              Inr (''content of '' @ str (ddname ([file1, file2, file3] ! i))) =
                (Inr (data (arrOfSpoolFile ! i)) :: error + string)
              \<and> ISpoolFile.id' (arrOfSpoolFile ! i) = IJobFile.id' ([file1, file2, file3] ! i)
              \<and> ddName (arrOfSpoolFile ! i) = ddname ([file1, file2, file3] ! i)
              \<and> ISpoolFile.stepName (arrOfSpoolFile ! i) = stepname ([file1, file2, file3] ! i)
              \<and> procName (arrOfSpoolFile ! i) = procstep ([file1, file2, file3] ! i)))"
proof -
  let ?parms = "parms0\<lparr>viewAllSpoolContent := Defined True\<rparr>"
  let ?jobParms = "\<lparr>IMonitorJobWaitForParms.jobname = IJob.jobname job0,
            jobid = IJob.jobid job0, status = Defined OUTPUT,
            maxAttempts = ISubmitParms.maxAttempts ?parms,
            watchDelay = ISubmitParms.watchDelay ?parms\<rparr>"
  let ?job = "job0\<lparr>IJob.status := Defined ''OUTPUT'', retcode := Defined ''CC 0000''\<rparr>"
  let ?before = "calls s0 @ [WaitForStatusCommon ?jobParms, GetSpoolFilesForJob ?job]"
  let ?files = "[file1, file2, file3]"
  have h1: "\<not> truthy (waitForActive ?parms)" by (simp add: parms0_def)
  have h2: "truthy (viewAllSpoolContent ?parms)" by simp
  have h4: "waitForStatusCommon env0 (calls s0) ?jobParms = Inr ?job"
    by (simp add: env0_def)
  have h6: "getSpoolFilesForJob env0 (calls s0 @ [WaitForStatusCommon ?jobParms]) ?job = Inr ?files"
    by (simp add: env0_def)
  have h7: "\<forall>i<length ?files. \<exists>d.
      getSpoolContent env0 (?before @ map GetSpoolContent (take i ?files)) (?files ! i) = Inr d"
    by (simp add: env0_def)
  from viewAllSpoolContent_in_order [OF h1 h2 refl h4 refl h6 h7]
  obtain arr s' where
    run: "checkSubmitOptions env0 ?parms job0 s0 = (Inr (SpoolFiles arr), s')"
    and trace: "calls s' = ?before @ map GetSpoolContent ?files"
    and len: "length arr = length ?files"
    and each: "\<forall>i<length ?files.
        getSpoolContent env0 (?before @ map GetSpoolContent (take i ?files)) (?files ! i) =
          Inr (data (arr ! i))
        \<and> ISpoolFile.id' (arr ! i) = IJobFile.id' (?files ! i)
        \<and> ddName (arr ! i) = ddname (?files ! i)
        \<and> ISpoolFile.stepName (arr ! i) = stepname (?files ! i)
        \<and> procName (arr ! i) = procstep (?files ! i)"
    by blast
  from trace have trace': "drop 2 (calls s') = map GetSpoolContent ?files"
    by (simp add: s0_def)
  from each have each': "\<forall>i<length ?files.
        Inr (''content of '' @ str (ddname (?files ! i))) = (Inr (data (arr ! i)) :: error + string)
        \<and> ISpoolFile.id' (arr ! i) = IJobFile.id' (?files ! i)
        \<and> ddName (arr ! i) = ddname (?files ! i)
        \<and> ISpoolFile.stepName (arr ! i) = stepname (?files ! i)
        \<and> procName (arr ! i) = procstep (?files ! i)"
    by (simp add: env0_def)
  from h1 h2 run trace' len each' show ?thesis
    by blast
qed

text \<open>
  C6.  In the same run, when the file at index \<open>k\<close> is the first whose content cannot
  be read, \<open>checkSubmitOptions\<close> fails with the error of that read.  The outcome holds
  no entry, also none for the \<open>k\<close> files read before; the read that failed is the last
  call made.
\<close>

theorem viewAllSpoolContent_fails_fast:
  assumes "\<not> truthy (waitForActive parms)"
    and "truthy (viewAllSpoolContent parms)"
    and "jobParms =
           \<lparr>IMonitorJobWaitForParms.jobname = IJob.jobname responseJobInfo,
            jobid = IJob.jobid responseJobInfo,
            status = Defined OUTPUT,
            maxAttempts = ISubmitParms.maxAttempts parms,
            watchDelay = ISubmitParms.watchDelay parms\<rparr>"
    and "waitForStatusCommon w (calls s) jobParms = Inr job"
    and "before = calls s @ [WaitForStatusCommon jobParms, GetSpoolFilesForJob job]"
    and "getSpoolFilesForJob w (calls s @ [WaitForStatusCommon jobParms]) job = Inr files"
    and "k < length files"
    and "\<forall>i<k. \<exists>d.
           getSpoolContent w (before @ map GetSpoolContent (take i files)) (files ! i) = Inr d"
    and "getSpoolContent w (before @ map GetSpoolContent (take k files)) (files ! k) = Inl e"
  shows "\<exists>s'. checkSubmitOptions w parms responseJobInfo s = (Inl e, s')
         \<and> calls s' = before @ map GetSpoolContent (take (Suc k) files)"
proof -
  let ?s0 = "setTask (''Waiting for '' @ str (IJob.jobid responseJobInfo) @ '' to enter OUTPUT'')
               THIRTY_PERCENT s"
  let ?s1 = "?s0\<lparr>calls := calls ?s0 @ [WaitForStatusCommon jobParms]\<rparr>"
  let ?s2 = "setTask (''Retrieving spool content for '' @ str (IJob.jobid job) @
                (if isNullOrUndefined (IJob.retcode job) then []
                 else '', '' @ str (IJob.retcode job))) SEVENTY_PERCENT ?s1"
  let ?s3 = "?s2\<lparr>calls := calls ?s2 @ [GetSpoolFilesForJob job]\<rparr>"
  have c3: "calls ?s3 = before"
    using assms(5) by (simp add: calls_setTask)
  from assms(8) c3 have ok: "\<forall>i<k. \<exists>d.
      getSpoolContent w (calls ?s3 @ map GetSpoolContent (take i files)) (files ! i) = Inr d"
    by simp
  from assms(9) c3 have bad:
    "getSpoolContent w (calls ?s3 @ map GetSpoolContent (take k files)) (files ! k) = Inl e"
    by simp
  from spoolLoop_fail[OF assms(7) ok bad, of "[]"] have
    run: "spoolLoop w files [] ?s3 =
            (Inl e, ?s3\<lparr>calls := calls ?s3 @ map GetSpoolContent (take (Suc k) files)\<rparr>)" .
  have "checkSubmitOptions w parms responseJobInfo s =
          (Inl e, ?s3\<lparr>calls := calls ?s3 @ map GetSpoolContent (take (Suc k) files)\<rparr>)"
    using assms(1-4,6) run
    by (simp add: checkSubmitOptions_def MonitorJobs_waitForStatusCommon_def
          GetJobs_getSpoolFilesForJob_def calls_setTask Let_def)
  moreover have "calls (?s3\<lparr>calls := calls ?s3 @ map GetSpoolContent (take (Suc k) files)\<rparr>) =
      before @ map GetSpoolContent (take (Suc k) files)"
    using c3 by simp
  ultimately show ?thesis by blast
qed

theorem viewAllSpoolContent_fails_fast_witness:
  "\<not> truthy (waitForActive (parms0\<lparr>viewAllSpoolContent := Defined True\<rparr>))
   \<and> truthy (viewAllSpoolContent (parms0\<lparr>viewAllSpoolContent := Defined True\<rparr>))
   \<and> getSpoolContent env1 [] file1 = Inr ''content of JESMSGLG''
   \<and> getSpoolContent env1 [] file2 = Inl (RemoteCallFailure ''HTTP 500'')
   \<and> (\<exists>s'. checkSubmitOptions env1 (parms0\<lparr>viewAllSpoolContent := Defined True\<rparr>) job0 s0 =
           (Inl (RemoteCallFailure ''HTTP 500''), s')
         \<and> drop 2 (calls s') = [GetSpoolContent file1, GetSpoolContent file2])"
proof -
  let ?parms = "parms0\<lparr>viewAllSpoolContent := Defined True\<rparr>"
  let ?jobParms = "\<lparr>IMonitorJobWaitForParms.jobname = IJob.jobname job0,
            jobid = IJob.jobid job0, status = Defined OUTPUT,
            maxAttempts = ISubmitParms.maxAttempts ?parms,
            watchDelay = ISubmitParms.watchDelay ?parms\<rparr>"
  let ?job = "job0\<lparr>IJob.status := Defined ''OUTPUT'', retcode := Defined ''CC 0000''\<rparr>"
  let ?before = "calls s0 @ [WaitForStatusCommon ?jobParms, GetSpoolFilesForJob ?job]"
  let ?files = "[file1, file2, file3]"
  have h1: "\<not> truthy (waitForActive ?parms)" by (simp add: parms0_def)
  have h2: "truthy (viewAllSpoolContent ?parms)" by simp
  have h4: "waitForStatusCommon env1 (calls s0) ?jobParms = Inr ?job"
    by (simp add: env1_def env0_def)
  have h6: "getSpoolFilesForJob env1 (calls s0 @ [WaitForStatusCommon ?jobParms]) ?job = Inr ?files"
    by (simp add: env1_def env0_def)
  have h7: "Suc 0 < length ?files" by simp
  have h8: "\<forall>i<Suc 0. \<exists>d.
      getSpoolContent env1 (?before @ map GetSpoolContent (take i ?files)) (?files ! i) = Inr d"
    by (simp add: env1_def env0_def file1_def)
  have h9: "getSpoolContent env1 (?before @ map GetSpoolContent (take (Suc 0) ?files))
              (?files ! Suc 0) = Inl (RemoteCallFailure ''HTTP 500'')"
    by (simp add: env1_def file2_def)
  have a: "getSpoolContent env1 [] file1 = Inr ''content of JESMSGLG''"
    by (simp add: env1_def env0_def file1_def)
  have b: "getSpoolContent env1 [] file2 = Inl (RemoteCallFailure ''HTTP 500'')"
    by (simp add: env1_def file2_def)
  from viewAllSpoolContent_fails_fast [OF h1 h2 refl h4 refl h6 h7 h8 h9]
  obtain s' where
    run: "checkSubmitOptions env1 ?parms job0 s0 = (Inl (RemoteCallFailure ''HTTP 500''), s')"
    and trace: "calls s' = ?before @ map GetSpoolContent (take (Suc (Suc 0)) ?files)"
    by blast
  from trace have trace': "drop 2 (calls s') = [GetSpoolContent file1, GetSpoolContent file2]"
    by (simp add: s0_def)
  from h1 h2 a b run trace' show ?thesis
    by blast
qed

section \<open>The workflow wait loop\<close>

text \<open>
  One turn of the loop: a response that does not end it leads to the next query; a
  response that ends it leads to the report; an error of the query ends the command.
\<close>

lemma queried_0: "queried 0 s = s"
  by (simp add: queried_def)

lemma queried_Suc:
  "queried (Suc n) s =
     queried n (s\<lparr>wcalls := wcalls s @ [GetWorkflowProperties (workflowKey (arguments s))]\<rparr>)"
  by (simp add: queried_def replicate_app_Cons_same)

lemma answer_Suc:
  "answer w s (Suc i) =
     answer w (s\<lparr>wcalls := wcalls s @ [GetWorkflowProperties (workflowKey (arguments s))]\<rparr>) i"
  by (simp add: answer_def queried_def replicate_app_Cons_same)

lemma waitLoop_pending:
  assumes "pending (answer w s 0)"
  shows "waitLoop w s = waitLoop w (queried (Suc 0) s)"
  using assms
  by (subst waitLoop.simps)
     (auto simp add: pending_def terminal_def answer_def queried_def
        PropertiesWorkflow_getWorkflowProperties_def split: sum.splits js.splits)

lemma waitLoop_terminal:
  assumes "answer w s 0 = Inr response" and "terminal response"
  shows "waitLoop w s =
     Some (Inr (),
       (if statusName response = Defined ''complete''
        then report ''Complete.'' ''Workflow completed successfully.''
        else report ''Fail.'' ''Workflow failed.'') (queried (Suc 0) s))"
  using assms
  by (subst waitLoop.simps)
     (auto simp add: terminal_def answer_def queried_def
        PropertiesWorkflow_getWorkflowProperties_def split: sum.splits js.splits)

lemma waitLoop_error:
  assumes "answer w s 0 = Inl e"
  shows "waitLoop w s = Some (Inl e, queried (Suc 0) s)"
  using assms
  by (subst waitLoop.simps)
     (auto simp add: answer_def queried_def PropertiesWorkflow_getWorkflowProperties_def)

lemma waitLoop_skip:
  assumes "\<forall>i<n. pending (answer w s i)"
  shows "waitLoop w s = waitLoop w (queried n s)"
  using assms
proof (induction n arbitrary: s)
  case 0
  then show ?case by (simp add: queried_0)
next
  case (Suc n)
  let ?s' = "s\<lparr>wcalls := wcalls s @ [GetWorkflowProperties (workflowKey (arguments s))]\<rparr>"
  from Suc.prems have first: "pending (answer w s 0)" by simp
  from Suc.prems have "\<forall>i<n. pending (answer w ?s' i)"
    by (simp add: answer_Suc[symmetric])
  from Suc.IH[OF this] have "waitLoop w ?s' = waitLoop w (queried n ?s')" .
  with waitLoop_pending[OF first] show ?case
    by (simp add: queried_Suc queried_0)
qed

lemma answer_queried: "answer w (queried n s) i = answer w s (n + i)"
  by (simp add: answer_def queried_def replicate_add)

lemma queried_queried: "queried m (queried n s) = queried (n + m) s"
  by (simp add: queried_def replicate_add)

lemma waitLoop_returns:
  assumes "waitLoop w s = Some y"
  shows "\<exists>n. (\<forall>i<n. pending (answer w s i)) \<and> \<not> pending (answer w s n)"
  using assms
proof (induction rule: waitLoop.raw_induct[rotated 1, consumes 1])
  case (1 waitLoop' w s y)
  show ?case
  proof (cases "pending (answer w s 0)")
    case False
    then have "(\<forall>i<0. pending (answer w s i)) \<and> \<not> pending (answer w s 0)" by simp
    then show ?thesis by blast
  next
    case True
    let ?s' = "s\<lparr>wcalls := wcalls s @ [GetWorkflowProperties (workflowKey (arguments s))]\<rparr>"
    from True "1.hyps" have "waitLoop' w ?s' = Some y"
      by (auto simp add: pending_def terminal_def answer_def queried_def
        PropertiesWorkflow_getWorkflowProperties_def split: sum.splits js.splits if_splits)
    from "1.IH"[OF this] obtain n where
      n: "\<forall>i<n. pending (answer w ?s' i)" "\<not> pending (answer w ?s' n)" by blast
    have "\<forall>i<Suc n. pending (answer w s i)"
    proof (intro allI impI)
      fix i assume "i < Suc n"
      show "pending (answer w s i)"
      proof (cases i)
        case 0
        with True show ?thesis by simp
      next
        case (Suc j)
        with \<open>i < Suc n\<close> n(1) show ?thesis by (simp add: answer_Suc)
      qed
    qed
    moreover have "\<not> pending (answer w s (Suc n))"
      using n(2) by (simp add: answer_Suc)
    ultimately show ?thesis by blast
  qed
qed

lemma waitLoop_never:
  assumes "\<forall>i. pending (answer w s i)"
  shows "waitLoop w s = None"
proof (cases "waitLoop w s")
  case None
  then show ?thesis .
next
  case (Some y)
  from waitLoop_returns[OF this] assms show ?thesis by blast
qed

lemma pending_iff: "pending a \<longleftrightarrow> (\<exists>response. a = Inr response \<and> \<not> terminal response)"
  by (cases a) (simp_all add: pending_def)

lemma waitLoop_cases:
  assumes "waitLoop w s = Some y"
  shows "\<exists>n. (\<forall>i<n. pending (answer w s i)) \<and>
           ((\<exists>e. answer w s n = Inl e \<and> y = (Inl e, queried (Suc n) s))
            \<or> (\<exists>response. answer w s n = Inr response \<and> terminal response \<and>
                 y = (Inr (),
                      (if statusName response = Defined ''complete''
                       then report ''Complete.'' ''Workflow completed successfully.''
                       else report ''Fail.'' ''Workflow failed.'') (queried (Suc n) s))))"
proof -
  from waitLoop_returns[OF assms] obtain n where
    before: "\<forall>i<n. pending (answer w s i)" and at: "\<not> pending (answer w s n)" by blast
  from waitLoop_skip[OF before] assms have run: "waitLoop w (queried n s) = Some y" by simp
  have here: "answer w (queried n s) 0 = answer w s n"
    by (simp add: answer_queried)
  have after: "queried (Suc 0) (queried n s) = queried (Suc n) s"
    by (simp add: queried_queried)
  show ?thesis
  proof (cases "answer w s n")
    case (Inl e)
    with waitLoop_error[of w "queried n s" e] here after run before show ?thesis
      by auto
  next
    case (Inr response)
    with at have t: "terminal response" by (simp add: pending_def)
    from waitLoop_terminal[of w "queried n s" response] Inr here after t run before
    show ?thesis by auto
  qed
qed

text \<open>
  C10.  A response without \<open>automationStatus\<close> does not end the loop, whatever its
  \<open>statusName\<close> is: the loop goes on to the next query with nothing reported; a loop
  all of whose responses lack \<open>automationStatus\<close> never returns; and when the loop does
  return with a report, the last response it read had an \<open>automationStatus\<close> whose
  \<open>currentStepName\<close> was \<open>null\<close> or absent.
\<close>

theorem no_automationStatus_polls_again:
  "(getWorkflowProperties w (wcalls s) (workflowKey (arguments s)) = Inr response
      \<and> isNullOrUndefined (automationStatus response) \<longrightarrow>
      waitLoop w s =
        waitLoop w (s\<lparr>wcalls := wcalls s @ [GetWorkflowProperties (workflowKey (arguments s))]\<rparr>))
   \<and> ((\<forall>i. \<exists>r. answer w s i = Inr r \<and> isNullOrUndefined (automationStatus r)) \<longrightarrow>
      waitLoop w s = None)
   \<and> (waitLoop w s = Some (Inr (), s') \<longrightarrow>
      (\<exists>n r a. answer w s n = Inr r \<and> automationStatus r = Defined a
         \<and> isNullOrUndefined (currentStepName a)
         \<and> wcalls s' = wcalls (queried (Suc n) s)))"
proof (intro conjI impI)
  assume a: "getWorkflowProperties w (wcalls s) (workflowKey (arguments s)) = Inr response
      \<and> isNullOrUndefined (automationStatus response)"
  then have "pending (answer w s 0)"
    by (cases "automationStatus response")
       (simp_all add: pending_def terminal_def answer_def queried_def)
  from waitLoop_pending[OF this]
  show "waitLoop w s =
        waitLoop w (s\<lparr>wcalls := wcalls s @ [GetWorkflowProperties (workflowKey (arguments s))]\<rparr>)"
    by (simp add: queried_def)
next
  assume a: "\<forall>i. \<exists>r. answer w s i = Inr r \<and> isNullOrUndefined (automationStatus r)"
  have "\<forall>i. pending (answer w s i)"
  proof
    fix i
    from a obtain r where r: "answer w s i = Inr r" "isNullOrUndefined (automationStatus r)"
      by blast
    then show "pending (answer w s i)"
      by (cases "automationStatus r") (simp_all add: pending_def terminal_def)
  qed
  then show "waitLoop w s = None" by (rule waitLoop_never)
next
  assume a: "waitLoop w s = Some (Inr (), s')"
  from waitLoop_cases[OF a] obtain n r where
    r: "answer w s n = Inr r" "terminal r"
    and s': "s' = (if statusName r = Defined ''complete''
                       then report ''Complete.'' ''Workflow completed successfully.''
                       else report ''Fail.'' ''Workflow failed.'') (queried (Suc n) s)"
    by auto
  from r(2) obtain a where "automationStatus r = Defined a" "isNullOrUndefined (currentStepName a)"
    by (cases "automationStatus r") (simp_all add: terminal_def)
  moreover from s' have "wcalls s' = wcalls (queried (Suc n) s)"
    by (simp add: report_def)
  ultimately show "\<exists>n r a. answer w s n = Inr r \<and> automationStatus r = Defined a
         \<and> isNullOrUndefined (currentStepName a)
         \<and> wcalls s' = wcalls (queried (Suc n) s)"
    using r(1) by blast
qed

theorem no_automationStatus_polls_again_witness:
  "getWorkflowProperties wenv1 (wcalls hs0) (workflowKey (arguments hs0)) = Inr noStatus
   \<and> isNullOrUndefined (automationStatus noStatus)
   \<and> statusName noStatus = Defined ''complete''
   \<and> waitLoop wenv1 hs0 =
       waitLoop wenv1 (hs0\<lparr>wcalls := [GetWorkflowProperties (Defined ''key1'')]\<rparr>)
   \<and> (\<forall>i. \<exists>r. answer wenv3 hs0 i = Inr r \<and> isNullOrUndefined (automationStatus r))
   \<and> waitLoop wenv3 hs0 = None
   \<and> waitLoop wenv1 hs0 =
       Some (Inr (),
         hs0\<lparr>wcalls := replicate 3 (GetWorkflowProperties (Defined ''key1'')),
             dataObj := Some ''Complete.'', console := [''Workflow completed successfully.'']\<rparr>)
   \<and> (\<exists>n r a. answer wenv1 hs0 n = Inr r \<and> automationStatus r = Defined a
         \<and> isNullOrUndefined (currentStepName a)
         \<and> replicate 3 (GetWorkflowProperties (Defined ''key1'')) = wcalls (queried (Suc n) hs0))"
proof -
  let ?s' = "hs0\<lparr>wcalls := replicate 3 (GetWorkflowProperties (Defined ''key1'')),
             dataObj := Some ''Complete.'', console := [''Workflow completed successfully.'']\<rparr>"
  have a: "getWorkflowProperties wenv1 (wcalls hs0) (workflowKey (arguments hs0)) = Inr noStatus"
    by (simp add: wenv1_def hs0_def)
  have b: "isNullOrUndefined (automationStatus noStatus)"
    and c: "statusName noStatus = Defined ''complete''"
    by (simp_all add: noStatus_def)
  have d: "\<forall>i. \<exists>r. answer wenv3 hs0 i = Inr r \<and> isNullOrUndefined (automationStatus r)"
    by (simp add: answer_def wenv3_def noStatus_def)
  have e: "waitLoop wenv1 hs0 = Some (Inr (), ?s')"
    by (simp add: waitLoop.simps PropertiesWorkflow_getWorkflowProperties_def wenv1_def wenv0_def
          hs0_def noStatus_def complete_def report_def numeral_3_eq_3)
  have f: "wcalls ?s' = replicate 3 (GetWorkflowProperties (Defined ''key1''))"
    by simp
  from no_automationStatus_polls_again [of wenv1 hs0 noStatus ?s']
       no_automationStatus_polls_again [of wenv3 hs0 noStatus ?s'] a b c d e f
  show ?thesis
    by (simp add: hs0_def)
qed

text \<open>
  C4.  Let the command run with the wait flag set, and let the start call succeed.
  If the first \<open>n\<close> responses to the properties query do not end the loop and response
  number \<open>n\<close> has an \<open>automationStatus\<close> without a current step, then, for any \<open>n\<close>,
  the command returns, and what it has done since it began is the start call followed
  by exactly \<open>n + 1\<close> properties queries: no wait on a timer lies between two queries,
  and no number of queries makes it give up.  When \<open>statusName\<close> of that response is
  \<open>complete\<close> the data object is \<open>Complete.\<close> and the line
  \<open>Workflow completed successfully.\<close> is written; for any other \<open>statusName\<close> the data
  object is \<open>Fail.\<close> and the line \<open>Workflow failed.\<close> is written.  The command returns
  with a report only in that case, and it never returns when no response ends the
  loop.
\<close>

theorem wait_until_no_current_step:
  assumes "truthy (wait (arguments s))"
    and "args = (if isNullOrUndefined (performOneStep (arguments s))
                 then (arguments s)\<lparr>performOneStep := Defined False\<rparr> else arguments s)"
    and "start = StartWorkflow (workflowKey args) (resolveConflict args) (arguments.stepName args)
                   (\<not> truthy (performOneStep args))"
    and "query = GetWorkflowProperties (workflowKey args)"
    and "startWorkflow w (wcalls s) (workflowKey args) (resolveConflict args)
           (arguments.stepName args) (\<not> truthy (performOneStep args)) = Inr ()"
    and "s1 = s\<lparr>arguments := args, wcalls := wcalls s @ [start]\<rparr>"
  shows "((\<forall>i<n. \<exists>r. answer w s1 i = Inr r \<and> \<not> terminal r)
            \<and> answer w s1 n = Inr response \<and> terminal response \<longrightarrow>
          processCmd w s =
            Some (Inr (),
              s\<lparr>arguments := args,
                wcalls := wcalls s @ start # replicate (Suc n) query,
                dataObj :=
                  Some (if statusName response = Defined ''complete''
                        then ''Complete.'' else ''Fail.''),
                console :=
                  console s @
                  [if statusName response = Defined ''complete''
                   then ''Workflow completed successfully.'' else ''Workflow failed.'']\<rparr>))
       \<and> ((\<exists>s'. processCmd w s = Some (Inr (), s')) \<longleftrightarrow>
            (\<exists>n response. (\<forall>i<n. \<exists>r. answer w s1 i = Inr r \<and> \<not> terminal r)
               \<and> answer w s1 n = Inr response \<and> terminal response))
       \<and> ((\<forall>i. \<exists>r. answer w s1 i = Inr r \<and> \<not> terminal r) \<longrightarrow> processCmd w s = None)"
proof -
  have w1: "truthy (wait (arguments s1))"
    using assms(1,2,6) by simp
  have run: "processCmd w s = waitLoop w s1"
    using assms(1,2,3,5,6) w1
    by (cases "isNullOrUndefined (performOneStep (arguments s))")
       (simp_all add: processCmd_def StartWorkflow_startWorkflow_def Let_def)
  have stop: "waitLoop w s1 =
            Some (Inr (),
              (if statusName r = Defined ''complete''
               then report ''Complete.'' ''Workflow completed successfully.''
               else report ''Fail.'' ''Workflow failed.'') (queried (Suc m) s1))"
    if "\<forall>i<m. \<exists>r. answer w s1 i = Inr r \<and> \<not> terminal r"
      and "answer w s1 m = Inr r" and "terminal r" for m r
  proof -
    from that(1) have "\<forall>i<m. pending (answer w s1 i)" by (simp add: pending_iff)
    from waitLoop_skip[OF this] have "waitLoop w s1 = waitLoop w (queried m s1)" .
    also have "\<dots> = Some (Inr (),
              (if statusName r = Defined ''complete''
               then report ''Complete.'' ''Workflow completed successfully.''
               else report ''Fail.'' ''Workflow failed.'') (queried (Suc 0) (queried m s1)))"
      using that(2,3) by (intro waitLoop_terminal) (simp_all add: answer_queried)
    finally show ?thesis by (simp add: queried_queried)
  qed
  have final: "(if statusName r = Defined ''complete''
               then report ''Complete.'' ''Workflow completed successfully.''
               else report ''Fail.'' ''Workflow failed.'') (queried (Suc m) s1) =
          s\<lparr>arguments := args,
            wcalls := wcalls s @ start # replicate (Suc m) query,
            dataObj :=
              Some (if statusName r = Defined ''complete'' then ''Complete.'' else ''Fail.''),
            console :=
              console s @
              [if statusName r = Defined ''complete''
               then ''Workflow completed successfully.'' else ''Workflow failed.'']\<rparr>" for m r
    using assms(4,6)
    by (cases "statusName r = Defined ''complete''")
       (simp_all add: report_def queried_def)
  show ?thesis
  proof (intro conjI impI iffI)
    assume "(\<forall>i<n. \<exists>r. answer w s1 i = Inr r \<and> \<not> terminal r)
            \<and> answer w s1 n = Inr response \<and> terminal response"
    with stop[of n response] run final[of response n]
    show "processCmd w s =
            Some (Inr (),
              s\<lparr>arguments := args,
                wcalls := wcalls s @ start # replicate (Suc n) query,
                dataObj :=
                  Some (if statusName response = Defined ''complete''
                        then ''Complete.'' else ''Fail.''),
                console :=
                  console s @
                  [if statusName response = Defined ''complete''
                   then ''Workflow completed successfully.'' else ''Workflow failed.'']\<rparr>)"
      by simp
  next
    assume "\<exists>s'. processCmd w s = Some (Inr (), s')"
    then obtain s' where "waitLoop w s1 = Some (Inr (), s')" using run by auto
    from waitLoop_cases[OF this]
    show "\<exists>n response. (\<forall>i<n. \<exists>r. answer w s1 i = Inr r \<and> \<not> terminal r)
               \<and> answer w s1 n = Inr response \<and> terminal response"
      by (auto simp add: pending_iff)
  next
    assume "\<exists>n response. (\<forall>i<n. \<exists>r. answer w s1 i = Inr r \<and> \<not> terminal r)
               \<and> answer w s1 n = Inr response \<and> terminal response"
    then obtain m r where "\<forall>i<m. \<exists>r. answer w s1 i = Inr r \<and> \<not> terminal r"
      "answer w s1 m = Inr r" "terminal r" by blast
    from stop[OF this] run show "\<exists>s'. processCmd w s = Some (Inr (), s')" by simp
  next
    assume "\<forall>i. \<exists>r. answer w s1 i = Inr r \<and> \<not> terminal r"
    then have "\<forall>i. pending (answer w s1 i)" by (simp add: pending_iff)
    from waitLoop_never[OF this] run show "processCmd w s = None" by simp
  qed
qed

theorem wait_until_no_current_step_witness:
  "truthy (wait (arguments hs0))
   \<and> startWorkflow wenv0 (wcalls hs0) (Defined ''key1'') Undefined Undefined True = Inr ()
   \<and> answer wenv0
         (hs0\<lparr>arguments := (arguments hs0)\<lparr>performOneStep := Defined False\<rparr>,
              wcalls := [StartWorkflow (Defined ''key1'') Undefined Undefined True]\<rparr>) 0 = Inr inProgress
   \<and> answer wenv0
         (hs0\<lparr>arguments := (arguments hs0)\<lparr>performOneStep := Defined False\<rparr>,
              wcalls := [StartWorkflow (Defined ''key1'') Undefined Undefined True]\<rparr>) 1 = Inr inProgress
   \<and> \<not> terminal inProgress
   \<and> answer wenv0
         (hs0\<lparr>arguments := (arguments hs0)\<lparr>performOneStep := Defined False\<rparr>,
              wcalls := [StartWorkflow (Defined ''key1'') Undefined Undefined True]\<rparr>) 2 = Inr complete
   \<and> terminal complete
   \<and> processCmd wenv0 hs0 =
       Some (Inr (),
         \<lparr>wcalls = [StartWorkflow (Defined ''key1'') Undefined Undefined True,
                    GetWorkflowProperties (Defined ''key1''),
                    GetWorkflowProperties (Defined ''key1''),
                    GetWorkflowProperties (Defined ''key1'')],
          arguments = \<lparr>workflowKey = Defined ''key1'', resolveConflict = Undefined,
                       stepName = Undefined, performOneStep = Defined False,
                       wait = Defined True\<rparr>,
          dataObj = Some ''Complete.'',
          console = [''Workflow completed successfully.'']\<rparr>)
   \<and> answer wenv5
         (hs0\<lparr>arguments := (arguments hs0)\<lparr>performOneStep := Defined False\<rparr>,
              wcalls := [StartWorkflow (Defined ''key1'') Undefined Undefined True]\<rparr>) 0 = Inr inProgress
   \<and> answer wenv5
         (hs0\<lparr>arguments := (arguments hs0)\<lparr>performOneStep := Defined False\<rparr>,
              wcalls := [StartWorkflow (Defined ''key1'') Undefined Undefined True]\<rparr>) 1 = Inr failed
   \<and> terminal failed
   \<and> statusName failed = Defined ''failed''
   \<and> processCmd wenv5 hs0 =
       Some (Inr (),
         \<lparr>wcalls = [StartWorkflow (Defined ''key1'') Undefined Undefined True,
                    GetWorkflowProperties (Defined ''key1''),
                    GetWorkflowProperties (Defined ''key1'')],
          arguments = \<lparr>workflowKey = Defined ''key1'', resolveConflict = Undefined,
                       stepName = Undefined, performOneStep = Defined False,
                       wait = Defined True\<rparr>,
          dataObj = Some ''Fail.'',
          console = [''Workflow failed.'']\<rparr>)
   \<and> (\<forall>i. \<exists>r.
         answer wenv3
           (hs0\<lparr>arguments := (arguments hs0)\<lparr>performOneStep := Defined False\<rparr>,
                wcalls := [StartWorkflow (Defined ''key1'') Undefined Undefined True]\<rparr>) i = Inr r
         \<and> \<not> terminal r)
   \<and> processCmd wenv3 hs0 = None"
proof -
  let ?args = "(arguments hs0)\<lparr>performOneStep := Defined False\<rparr>"
  let ?start = "StartWorkflow (Defined ''key1'') Undefined Undefined True"
  let ?query = "GetWorkflowProperties (Defined ''key1'')"
  let ?s1 = "hs0\<lparr>arguments := ?args, wcalls := [?start]\<rparr>"
  have h1: "truthy (wait (arguments hs0))" by (simp add: hs0_def)
  have h2: "?args = (if isNullOrUndefined (performOneStep (arguments hs0))
                 then (arguments hs0)\<lparr>performOneStep := Defined False\<rparr> else arguments hs0)"
    by (simp add: hs0_def)
  have h3: "?start = StartWorkflow (workflowKey ?args) (resolveConflict ?args)
                       (arguments.stepName ?args) (\<not> truthy (performOneStep ?args))"
    by (simp add: hs0_def)
  have hq: "?query = GetWorkflowProperties (workflowKey ?args)"
    by (simp add: hs0_def)
  have h4: "startWorkflow wenv0 (wcalls hs0) (workflowKey ?args) (resolveConflict ?args)
           (arguments.stepName ?args) (\<not> truthy (performOneStep ?args)) = Inr ()"
    by (simp add: wenv0_def)
  have h4': "startWorkflow wenv3 (wcalls hs0) (workflowKey ?args) (resolveConflict ?args)
           (arguments.stepName ?args) (\<not> truthy (performOneStep ?args)) = Inr ()"
    by (simp add: wenv3_def wenv0_def)
  have h4'': "startWorkflow wenv5 (wcalls hs0) (workflowKey ?args) (resolveConflict ?args)
           (arguments.stepName ?args) (\<not> truthy (performOneStep ?args)) = Inr ()"
    by (simp add: wenv5_def wenv0_def)
  have h5: "?s1 = hs0\<lparr>arguments := ?args, wcalls := wcalls hs0 @ [?start]\<rparr>"
    by (simp add: hs0_def)
  have a: "startWorkflow wenv0 (wcalls hs0) (Defined ''key1'') Undefined Undefined True = Inr ()"
    by (simp add: wenv0_def)
  have b: "\<forall>i<2. \<exists>r. answer wenv0 ?s1 i = Inr r \<and> \<not> terminal r"
    by (simp add: answer_def queried_def wenv0_def inProgress_def terminal_def
          numeral_2_eq_2 less_Suc_eq)
  have b0: "answer wenv0 ?s1 0 = Inr inProgress" and b1: "answer wenv0 ?s1 1 = Inr inProgress"
    by (simp_all add: answer_def queried_def wenv0_def)
  have b2: "\<not> terminal inProgress"
    by (simp add: inProgress_def terminal_def)
  have c: "answer wenv0 ?s1 2 = Inr complete"
    by (simp add: answer_def queried_def wenv0_def numeral_2_eq_2)
  have d: "terminal complete"
    by (simp add: complete_def terminal_def)
  have e: "\<forall>i. \<exists>r. answer wenv3 ?s1 i = Inr r \<and> \<not> terminal r"
    by (simp add: answer_def wenv3_def noStatus_def terminal_def)
  have f: "statusName complete = Defined ''complete''"
    by (simp add: complete_def)
  have g: "\<forall>i<1. \<exists>r. answer wenv5 ?s1 i = Inr r \<and> \<not> terminal r"
    by (simp add: answer_def queried_def wenv5_def inProgress_def terminal_def)
  have g0: "answer wenv5 ?s1 0 = Inr inProgress" and g1: "answer wenv5 ?s1 1 = Inr failed"
    by (simp_all add: answer_def queried_def wenv5_def)
  have g2: "terminal failed" and g3: "statusName failed = Defined ''failed''"
    by (simp_all add: failed_def terminal_def)
  from wait_until_no_current_step [OF h1 h2 h3 hq h4 h5, of 2 complete] b c d f
  have r0: "processCmd wenv0 hs0 =
       Some (Inr (),
         \<lparr>wcalls = [?start, ?query, ?query, ?query],
          arguments = \<lparr>workflowKey = Defined ''key1'', resolveConflict = Undefined,
                       stepName = Undefined, performOneStep = Defined False,
                       wait = Defined True\<rparr>,
          dataObj = Some ''Complete.'',
          console = [''Workflow completed successfully.'']\<rparr>)"
    by (simp add: hs0_def numeral_3_eq_3)
  from wait_until_no_current_step [OF h1 h2 h3 hq h4'' h5, of 1 failed] g g1 g2 g3
  have r5: "processCmd wenv5 hs0 =
       Some (Inr (),
         \<lparr>wcalls = [?start, ?query, ?query],
          arguments = \<lparr>workflowKey = Defined ''key1'', resolveConflict = Undefined,
                       stepName = Undefined, performOneStep = Defined False,
                       wait = Defined True\<rparr>,
          dataObj = Some ''Fail.'',
          console = [''Workflow failed.'']\<rparr>)"
    by (simp add: hs0_def)
  from wait_until_no_current_step [OF h1 h2 h3 hq h4' h5, of 2 complete] e
  have r3: "processCmd wenv3 hs0 = None"
    by simp
  from h1 a b0 b1 b2 c d r0 g0 g1 g2 g3 r5 e r3 show ?thesis
    by simp
qed

section \<open>How failures of remote calls travel\<close>

lemma propagates_Inr: "propagates w h cs (Inr x) \<Longrightarrow> propagates w h cs r"
  by (induction cs arbitrary: h) (auto split: option.splits)

lemma propagates_Inl:
  "propagates w h cs (Inl e :: error + 'a) \<Longrightarrow> propagates w h cs (Inl e :: error + 'b)"
  by (induction cs arbitrary: h) (auto split: option.splits)

lemma propagates_append:
  "propagates w h cs1 (Inr x) \<Longrightarrow> propagates w (h @ cs1) cs2 r \<Longrightarrow>
     propagates w h (cs1 @ cs2) r"
  by (induction cs1 arbitrary: h) (auto split: option.splits)

lemma propagates_from_iff:
  "propagates_from w s (r, s') \<longleftrightarrow> (\<exists>cs. calls s' = calls s @ cs \<and> propagates w (calls s) cs r)"
proof
  assume "propagates_from w s (r, s')"
  then have "calls s' = calls s @ drop (length (calls s)) (calls s')"
    and "propagates w (calls s) (drop (length (calls s)) (calls s')) r"
    by (simp_all add: propagates_from_def) (metis append_take_drop_id)
  then show "\<exists>cs. calls s' = calls s @ cs \<and> propagates w (calls s) cs r" by blast
next
  assume "\<exists>cs. calls s' = calls s @ cs \<and> propagates w (calls s) cs r"
  then show "propagates_from w s (r, s')" by (auto simp add: propagates_from_def)
qed

lemma propagates_from_return: "propagates_from w s (r, s)"
  by (simp add: propagates_from_iff)

lemma propagates_from_bind:
  assumes "propagates_from w s out"
    and "\<And>x s1. out = (Inr x, s1) \<Longrightarrow> propagates_from w s1 (f x s1)"
  shows "propagates_from w s (case out of (Inl e, s1) \<Rightarrow> (Inl e, s1) | (Inr x, s1) \<Rightarrow> f x s1)"
proof (cases out)
  case (Pair r s1)
  with assms(1) obtain cs1 where cs1: "calls s1 = calls s @ cs1" "propagates w (calls s) cs1 r"
    by (auto simp add: propagates_from_iff)
  show ?thesis
  proof (cases r)
    case (Inl e)
    with cs1 Pair show ?thesis
      by (auto simp add: propagates_from_iff dest: propagates_Inl)
  next
    case (Inr x)
    obtain r2 s2 where out2: "f x s1 = (r2, s2)" by (cases "f x s1")
    with assms(2)[of x s1] Pair Inr obtain cs2 where
      cs2: "calls s2 = calls s1 @ cs2" "propagates w (calls s1) cs2 r2"
      by (auto simp add: propagates_from_iff)
    from cs1 cs2 Inr have "calls s2 = calls s @ (cs1 @ cs2)"
      and "propagates w (calls s) (cs1 @ cs2) r2"
      by (auto intro: propagates_append)
    with Pair Inr out2 show ?thesis
      by (auto simp add: propagates_from_iff)
  qed
qed

lemma propagates_from_setTask: "propagates_from w (setTask message percent s) out = propagates_from w s out"
  by (simp add: propagates_from_def calls_setTask)

lemma propagates_from_put: "propagates_from w s (ZosmfRestClient_putExpectJSON w headers body s)"
  by (auto simp add: propagates_from_iff ZosmfRestClient_putExpectJSON_def split: sum.splits)

lemma propagates_from_wait: "propagates_from w s (MonitorJobs_waitForStatusCommon w parms s)"
  by (auto simp add: propagates_from_iff MonitorJobs_waitForStatusCommon_def split: sum.splits)

lemma propagates_from_files: "propagates_from w s (GetJobs_getSpoolFilesForJob w job s)"
  by (auto simp add: propagates_from_iff GetJobs_getSpoolFilesForJob_def split: sum.splits)

lemma propagates_from_content: "propagates_from w s (GetJobs_getSpoolContent w file s)"
  by (auto simp add: propagates_from_iff GetJobs_getSpoolContent_def split: sum.splits)

lemma propagates_from_download: "propagates_from w s (DownloadJobs_downloadAllSpoolContentCommon w parms s)"
  by (auto simp add: propagates_from_iff DownloadJobs_downloadAllSpoolContentCommon_def
        split: sum.splits)

lemma propagates_from_spoolLoop: "propagates_from w s (spoolLoop w files arr s)"
proof (induction files arbitrary: arr s)
  case Nil
  show ?case by (simp add: propagates_from_return)
next
  case (Cons f fs)
  show ?case
    unfolding spoolLoop.simps
    by (rule propagates_from_bind[OF propagates_from_content]) (rule Cons.IH)
qed

lemma propagates_from_if:
  "(c \<Longrightarrow> propagates_from w s a) \<Longrightarrow> (\<not> c \<Longrightarrow> propagates_from w s b) \<Longrightarrow>
     propagates_from w s (if c then a else b)"
  by simp

lemma propagates_from_wait_task:
  "propagates_from w s (MonitorJobs_waitForStatusCommon w parms (setTask message percent s))"
  using propagates_from_wait[of w "setTask message percent s" parms]
  by (simp add: propagates_from_setTask)

lemma propagates_from_files_task:
  "propagates_from w s (GetJobs_getSpoolFilesForJob w job (setTask message percent s))"
  using propagates_from_files[of w "setTask message percent s" job]
  by (simp add: propagates_from_setTask)

lemma propagates_from_download_task:
  "propagates_from w s
     (DownloadJobs_downloadAllSpoolContentCommon w parms (setTask message percent s))"
  using propagates_from_download[of w "setTask message percent s" parms]
  by (simp add: propagates_from_setTask)

lemma propagates_from_checkSubmitOptions: "propagates_from w s (checkSubmitOptions w parms responseJobInfo s)"
  unfolding checkSubmitOptions_def Let_def
  by (intro propagates_from_if propagates_from_bind propagates_from_wait propagates_from_wait_task propagates_from_files_task
        propagates_from_download_task propagates_from_spoolLoop propagates_from_return)

lemma propagates_from_submitJclCommon: "propagates_from w s (submitJclCommon w parms s)"
  unfolding submitJclCommon_def Let_def
  by (cases "keysToBeDefined [jcl parms]
             (''You must provide a JCL string to submit. '' @
              ''The 'jcl' field of the provided parameters was undefined. '')")
     (simp_all add: propagates_from_return propagates_from_put)

lemma propagates_from_submitJobCommon: "propagates_from w s (submitJobCommon w parms s)"
  unfolding submitJobCommon_def Let_def
  by (cases "keysToBeDefined [jobDataSet parms]
             ''You must provide a data set containing JCL to submit in parms.jobDataSet''")
     (simp_all add: propagates_from_return propagates_from_put)

lemma propagates_from_submitNotifyCommon: "propagates_from w s (submitNotifyCommon w job status' watchDelay' s)"
  unfolding submitNotifyCommon_def
  by (cases "keysToBeDefined [IJob.jobname job, IJob.jobid job]
             ''The job object you provide must contain both 'jobname' and 'jobid'.''")
     (simp_all add: propagates_from_return propagates_from_wait)

lemma propagates_from_submitJclString: "propagates_from w s (submitJclString w missingJcl jcl' parms s)"
proof (cases "toNotBeNullOrUndefined jcl' missingJcl")
  case (Inl e)
  then show ?thesis by (simp add: submitJclString_def propagates_from_return)
next
  case a: (Inr u)
  show ?thesis
  proof (cases "toNotBeEqual jcl' (Defined []) missingJcl")
    case (Inl e)
    with a show ?thesis by (simp add: submitJclString_def propagates_from_return)
  next
    case (Inr u')
    with a show ?thesis
      by (simp add: submitJclString_def)
         (intro propagates_from_bind propagates_from_submitJclCommon propagates_from_checkSubmitOptions)
  qed
qed

lemma propagates_from_submitJclNotifyCommon: "propagates_from w s (submitJclNotifyCommon w parms s)"
  unfolding submitJclNotifyCommon_def
  by (intro propagates_from_bind propagates_from_submitJclCommon propagates_from_submitNotifyCommon)

lemma propagates_from_submitJobNotifyCommon: "propagates_from w s (submitJobNotifyCommon w parms s)"
proof (cases "keysToBeDefined [jobDataSet parms]
             ''You must provide a data set containing JCL to submit in parms.jobDataSet.''")
  case (Inl e)
  then show ?thesis by (simp add: submitJobNotifyCommon_def propagates_from_return)
next
  case (Inr u)
  then show ?thesis
    by (simp add: submitJobNotifyCommon_def)
       (intro propagates_from_bind propagates_from_submitJobCommon propagates_from_submitNotifyCommon)
qed

lemma processCmd_start_fails:
  assumes "args = (if isNullOrUndefined (performOneStep (arguments s))
                   then (arguments s)\<lparr>performOneStep := Defined False\<rparr> else arguments s)"
    and "startWorkflow w (wcalls s) (workflowKey args) (resolveConflict args)
           (arguments.stepName args) (\<not> truthy (performOneStep args)) = Inl e"
  shows "processCmd w s =
     Some (Inl (ThrownString (''Start workflow: '' @ toString w e)),
       s\<lparr>arguments := args,
          wcalls := wcalls s @
            [StartWorkflow (workflowKey args) (resolveConflict args) (arguments.stepName args)
               (\<not> truthy (performOneStep args))]\<rparr>)"
  using assms
  by (cases "isNullOrUndefined (performOneStep (arguments s))")
     (simp_all add: processCmd_def StartWorkflow_startWorkflow_def Let_def)

lemma processCmd_query_fails:
  assumes "truthy (wait (arguments s))"
    and "args = (if isNullOrUndefined (performOneStep (arguments s))
                 then (arguments s)\<lparr>performOneStep := Defined False\<rparr> else arguments s)"
    and "startWorkflow w (wcalls s) (workflowKey args) (resolveConflict args)
           (arguments.stepName args) (\<not> truthy (performOneStep args)) = Inr ()"
    and "s1 = s\<lparr>arguments := args,
                 wcalls := wcalls s @
                   [StartWorkflow (workflowKey args) (resolveConflict args)
                      (arguments.stepName args) (\<not> truthy (performOneStep args))]\<rparr>"
    and "\<forall>i<n. \<exists>r. answer w s1 i = Inr r \<and> \<not> terminal r"
    and "answer w s1 n = Inl e"
  shows "processCmd w s = Some (Inl e, queried (Suc n) s1)"
proof -
  have w1: "truthy (wait (arguments s1))"
    using assms(1,2,4) by simp
  have run: "processCmd w s = waitLoop w s1"
    using assms(1-4) w1
    by (cases "isNullOrUndefined (performOneStep (arguments s))")
       (simp_all add: processCmd_def StartWorkflow_startWorkflow_def Let_def)
  from assms(5) have "\<forall>i<n. pending (answer w s1 i)" by (simp add: pending_iff)
  from waitLoop_skip[OF this] have "waitLoop w s1 = waitLoop w (queried n s1)" .
  also have "\<dots> = Some (Inl e, queried (Suc 0) (queried n s1))"
    using assms(6) by (intro waitLoop_error) (simp add: answer_queried)
  finally show ?thesis using run by (simp add: queried_queried)
qed

text \<open>
  C8, as the specification states it, fails for the workflow start call: \<open>processCmd\<close>
  catches its failure and throws the string \<open>"Start workflow: " + err\<close> instead.  Here
  the start call fails with the error \<open>HTTP 404\<close> and the caller receives a string.
\<close>

theorem start_failure_is_rethrown_as_text:
  "startWorkflow wenv2 (wcalls hs0) (Defined ''key1'') Undefined Undefined True =
     Inl (RemoteCallFailure ''HTTP 404'')
   \<and> processCmd wenv2 hs0 =
       Some (Inl (ThrownString ''Start workflow: Error: HTTP 404''),
         hs0\<lparr>arguments := (arguments hs0)\<lparr>performOneStep := Defined False\<rparr>,
             wcalls := [StartWorkflow (Defined ''key1'') Undefined Undefined True]\<rparr>)"
  by (simp add: processCmd_def StartWorkflow_startWorkflow_def wenv2_def wenv0_def hs0_def)

text \<open>
  C8, amended.  In the operations of \<open>SubmitJobs\<close> (\<open>submitJobCommon\<close>,
  \<open>submitJclCommon\<close>, \<open>submitJclString\<close>, \<open>checkSubmitOptions\<close>,
  \<open>submitJclNotifyCommon\<close>, \<open>submitJobNotifyCommon\<close>) a remote call that fails is the
  last call the operation makes, and the operation fails with the error of that call,
  unchanged.  In \<open>processCmd\<close>, a failure of a properties query in the wait loop ends
  the command with that error, unchanged, while a failure of the start call is caught
  and thrown again as the text \<open>Start workflow: \<close> followed by the text of the error.
\<close>

theorem remote_failures_reach_caller:
  assumes "args = (if isNullOrUndefined (performOneStep (arguments hs))
                   then (arguments hs)\<lparr>performOneStep := Defined False\<rparr> else arguments hs)"
    and "hs1 = hs\<lparr>arguments := args,
                   wcalls := wcalls hs @
                     [StartWorkflow (workflowKey args) (resolveConflict args)
                        (arguments.stepName args) (\<not> truthy (performOneStep args))]\<rparr>"
  shows "propagates_from w s (submitJobCommon w jobParms s)
       \<and> propagates_from w s (submitJclCommon w jclParms s)
       \<and> propagates_from w s (submitJclString w missingJcl jcl' parms s)
       \<and> propagates_from w s (checkSubmitOptions w parms job s)
       \<and> propagates_from w s (submitJclNotifyCommon w jclNotifyParm s)
       \<and> propagates_from w s (submitJobNotifyCommon w jobNotifyParm s)
       \<and> (truthy (wait (arguments hs))
            \<and> startWorkflow ww (wcalls hs) (workflowKey args) (resolveConflict args)
                (arguments.stepName args) (\<not> truthy (performOneStep args)) = Inr ()
            \<and> (\<forall>i<n. \<exists>r. answer ww hs1 i = Inr r \<and> \<not> terminal r)
            \<and> answer ww hs1 n = Inl e \<longrightarrow>
          processCmd ww hs = Some (Inl e, queried (Suc n) hs1))
       \<and> (startWorkflow ww (wcalls hs) (workflowKey args) (resolveConflict args)
                (arguments.stepName args) (\<not> truthy (performOneStep args)) = Inl e \<longrightarrow>
          processCmd ww hs =
            Some (Inl (ThrownString (''Start workflow: '' @ toString ww e)), hs1))"
proof (intro conjI impI)
  show "propagates_from w s (submitJobCommon w jobParms s)"
    by (rule propagates_from_submitJobCommon)
  show "propagates_from w s (submitJclCommon w jclParms s)"
    by (rule propagates_from_submitJclCommon)
  show "propagates_from w s (submitJclString w missingJcl jcl' parms s)"
    by (rule propagates_from_submitJclString)
  show "propagates_from w s (checkSubmitOptions w parms job s)"
    by (rule propagates_from_checkSubmitOptions)
  show "propagates_from w s (submitJclNotifyCommon w jclNotifyParm s)"
    by (rule propagates_from_submitJclNotifyCommon)
  show "propagates_from w s (submitJobNotifyCommon w jobNotifyParm s)"
    by (rule propagates_from_submitJobNotifyCommon)
next
  assume "truthy (wait (arguments hs))
            \<and> startWorkflow ww (wcalls hs) (workflowKey args) (resolveConflict args)
                (arguments.stepName args) (\<not> truthy (performOneStep args)) = Inr ()
            \<and> (\<forall>i<n. \<exists>r. answer ww hs1 i = Inr r \<and> \<not> terminal r)
            \<and> answer ww hs1 n = Inl e"
  with assms show "processCmd ww hs = Some (Inl e, queried (Suc n) hs1)"
    by (intro processCmd_query_fails[where args = args]) simp_all
next
  assume "startWorkflow ww (wcalls hs) (workflowKey args) (resolveConflict args)
                (arguments.stepName args) (\<not> truthy (performOneStep args)) = Inl e"
  from processCmd_start_fails[OF assms(1) this] assms(2)
  show "processCmd ww hs =
            Some (Inl (ThrownString (''Start workflow: '' @ toString ww e)), hs1)"
    by simp
qed

theorem remote_failures_reach_caller_witness:
  "failure env1
     [WaitForStatusCommon
        \<lparr>IMonitorJobWaitForParms.jobname = Defined ''TESTJOB'', jobid = Defined ''JOB00042'',
         status = Defined OUTPUT, maxAttempts = Undefined, watchDelay = Undefined\<rparr>,
      GetSpoolFilesForJob (job0\<lparr>IJob.status := Defined ''OUTPUT'', retcode := Defined ''CC 0000''\<rparr>),
      GetSpoolContent file1]
     (GetSpoolContent file2) = Some (RemoteCallFailure ''HTTP 500'')
   \<and> propagates_from env1 s0
        (checkSubmitOptions env1 (parms0\<lparr>viewAllSpoolContent := Defined True\<rparr>) job0 s0)
   \<and> checkSubmitOptions env1 (parms0\<lparr>viewAllSpoolContent := Defined True\<rparr>) job0 s0 =
       (Inl (RemoteCallFailure ''HTTP 500''),
        \<lparr>calls =
           [WaitForStatusCommon
              \<lparr>IMonitorJobWaitForParms.jobname = Defined ''TESTJOB'', jobid = Defined ''JOB00042'',
               status = Defined OUTPUT, maxAttempts = Undefined, watchDelay = Undefined\<rparr>,
            GetSpoolFilesForJob
              (job0\<lparr>IJob.status := Defined ''OUTPUT'', retcode := Defined ''CC 0000''\<rparr>),
            GetSpoolContent file1, GetSpoolContent file2],
         task = Some \<lparr>statusMessage = ''Retrieving spool content for JOB00042, CC 0000'',
                      percentComplete = 70\<rparr>\<rparr>)
   \<and> truthy (wait (arguments hs0))
   \<and> startWorkflow wenv4 (wcalls hs0) (Defined ''key1'') Undefined Undefined True = Inr ()
   \<and> answer wenv4
         (hs0\<lparr>arguments := (arguments hs0)\<lparr>performOneStep := Defined False\<rparr>,
              wcalls := [StartWorkflow (Defined ''key1'') Undefined Undefined True]\<rparr>) 0 = Inr inProgress
   \<and> \<not> terminal inProgress
   \<and> answer wenv4
         (hs0\<lparr>arguments := (arguments hs0)\<lparr>performOneStep := Defined False\<rparr>,
              wcalls := [StartWorkflow (Defined ''key1'') Undefined Undefined True]\<rparr>) 1 =
       Inl (RemoteCallFailure ''HTTP 401'')
   \<and> processCmd wenv4 hs0 =
       Some (Inl (RemoteCallFailure ''HTTP 401''),
         hs0\<lparr>arguments := (arguments hs0)\<lparr>performOneStep := Defined False\<rparr>,
             wcalls := StartWorkflow (Defined ''key1'') Undefined Undefined True
                       # replicate 2 (GetWorkflowProperties (Defined ''key1''))\<rparr>)
   \<and> startWorkflow wenv2 (wcalls hs0) (Defined ''key1'') Undefined Undefined True =
       Inl (RemoteCallFailure ''HTTP 404'')
   \<and> processCmd wenv2 hs0 =
       Some (Inl (ThrownString (''Start workflow: '' @ toString wenv2 (RemoteCallFailure ''HTTP 404''))),
         hs0\<lparr>arguments := (arguments hs0)\<lparr>performOneStep := Defined False\<rparr>,
             wcalls := [StartWorkflow (Defined ''key1'') Undefined Undefined True]\<rparr>)"
proof -
  let ?parms = "parms0\<lparr>viewAllSpoolContent := Defined True\<rparr>"
  let ?args = "(arguments hs0)\<lparr>performOneStep := Defined False\<rparr>"
  let ?start = "StartWorkflow (Defined ''key1'') Undefined Undefined True"
  let ?s1 = "hs0\<lparr>arguments := ?args, wcalls := [?start]\<rparr>"
  have h1: "?args = (if isNullOrUndefined (performOneStep (arguments hs0))
                 then (arguments hs0)\<lparr>performOneStep := Defined False\<rparr> else arguments hs0)"
    by (simp add: hs0_def)
  have h2: "?s1 = hs0\<lparr>arguments := ?args,
                   wcalls := wcalls hs0 @
                     [StartWorkflow (workflowKey ?args) (resolveConflict ?args)
                        (arguments.stepName ?args) (\<not> truthy (performOneStep ?args))]\<rparr>"
    by (simp add: hs0_def)
  have a: "failure env1
     [WaitForStatusCommon
        \<lparr>IMonitorJobWaitForParms.jobname = Defined ''TESTJOB'', jobid = Defined ''JOB00042'',
         status = Defined OUTPUT, maxAttempts = Undefined, watchDelay = Undefined\<rparr>,
      GetSpoolFilesForJob (job0\<lparr>IJob.status := Defined ''OUTPUT'', retcode := Defined ''CC 0000''\<rparr>),
      GetSpoolContent file1]
     (GetSpoolContent file2) = Some (RemoteCallFailure ''HTTP 500'')"
    by (simp add: env1_def file2_def)
  have b: "checkSubmitOptions env1 ?parms job0 s0 =
       (Inl (RemoteCallFailure ''HTTP 500''),
        \<lparr>calls =
           [WaitForStatusCommon
              \<lparr>IMonitorJobWaitForParms.jobname = Defined ''TESTJOB'', jobid = Defined ''JOB00042'',
               status = Defined OUTPUT, maxAttempts = Undefined, watchDelay = Undefined\<rparr>,
            GetSpoolFilesForJob
              (job0\<lparr>IJob.status := Defined ''OUTPUT'', retcode := Defined ''CC 0000''\<rparr>),
            GetSpoolContent file1, GetSpoolContent file2],
         task = Some \<lparr>statusMessage = ''Retrieving spool content for JOB00042, CC 0000'',
                      percentComplete = 70\<rparr>\<rparr>)"
    by (simp add: checkSubmitOptions_def MonitorJobs_waitForStatusCommon_def
          GetJobs_getSpoolFilesForJob_def GetJobs_getSpoolContent_def setTask_def
          THIRTY_PERCENT_def SEVENTY_PERCENT_def
          parms0_def env1_def env0_def s0_def job0_def file1_def file2_def)
  have c: "truthy (wait (arguments hs0))" by (simp add: hs0_def)
  have d: "startWorkflow wenv4 (wcalls hs0) (Defined ''key1'') Undefined Undefined True = Inr ()"
    by (simp add: wenv4_def wenv0_def)
  have e0: "answer wenv4 ?s1 0 = Inr inProgress"
    and e1: "answer wenv4 ?s1 1 = Inl (RemoteCallFailure ''HTTP 401'')"
    by (simp_all add: answer_def queried_def wenv4_def)
  have e2: "\<not> terminal inProgress"
    by (simp add: inProgress_def terminal_def)
  have f: "startWorkflow wenv2 (wcalls hs0) (Defined ''key1'') Undefined Undefined True =
       Inl (RemoteCallFailure ''HTTP 404'')"
    by (simp add: wenv2_def)
  from remote_failures_reach_caller
         [OF h1 h2, of env1 s0 "\<lparr>jobDataSet = Undefined\<rparr>"
            "\<lparr>jcl = Undefined, internalReaderRecfm = Undefined, internalReaderLrecl = Undefined\<rparr>"
            "[]" Undefined ?parms job0
            "\<lparr>jcl = Undefined, internalReaderRecfm = Undefined, internalReaderLrecl = Undefined,
              ISubmitJclNotifyParm.status = Undefined, ISubmitJclNotifyParm.watchDelay = Undefined\<rparr>"
            "\<lparr>jobDataSet = Undefined, ISubmitJobNotifyParm.status = Undefined,
              ISubmitJobNotifyParm.watchDelay = Undefined\<rparr>"
            wenv4 1 "RemoteCallFailure ''HTTP 401''"]
       remote_failures_reach_caller
         [OF h1 h2, of env1 s0 "\<lparr>jobDataSet = Undefined\<rparr>"
            "\<lparr>jcl = Undefined, internalReaderRecfm = Undefined, internalReaderLrecl = Undefined\<rparr>"
            "[]" Undefined ?parms job0
            "\<lparr>jcl = Undefined, internalReaderRecfm = Undefined, internalReaderLrecl = Undefined,
              ISubmitJclNotifyParm.status = Undefined, ISubmitJclNotifyParm.watchDelay = Undefined\<rparr>"
            "\<lparr>jobDataSet = Undefined, ISubmitJobNotifyParm.status = Undefined,
              ISubmitJobNotifyParm.watchDelay = Undefined\<rparr>"
            wenv2 1 "RemoteCallFailure ''HTTP 404''"]
       a b c d e0 e1 e2 f
  show ?thesis
    by (simp add: queried_def hs0_def numeral_2_eq_2)
qed

end
